theory Spec2Isabelle
  imports Complex_Main
begin

section \<open>The credential store\<close>

text \<open>
  The repository holds three copies of one Express server: the "Production Ready"
  server (\<^verbatim>\<open>unnamed/part_000\<close>), the "Stable Production Version for Render"
  (\<^verbatim>\<open>server.js\<close>, lines 1 to 276) and an older server (\<^verbatim>\<open>server.js\<close>, lines 278
  to 498), called the legacy server below.  Handlers whose text agrees in all copies
  that have them (signup and login of the two production servers, verify-reset of all
  three, change-password) are modelled once; handlers that differ get one definition
  per copy.  The legacy file binds \<^verbatim>\<open>path\<close> and \<^verbatim>\<open>PORT\<close> twice each, so Node
  refuses to load it and its routes never run; its signup and request-reset are
  modelled for comparison only, and its login, which reads a table named \<^verbatim>\<open>users\<close>
  that no file creates, is left out.

  The table \<^verbatim>\<open>users1\<close> is declared as
  \<^verbatim>\<open>id SERIAL PRIMARY KEY, email VARCHAR(255) UNIQUE NOT NULL, password VARCHAR(255)
  NOT NULL, reset_otp VARCHAR(10), reset_expires TIMESTAMP\<close>.
  A row is a record, the table a list of rows in insertion order, and the sequence
  behind \<^verbatim>\<open>SERIAL\<close> a counter.  Time is an integer number of milliseconds.  Delivered
  mail is kept in an outbox so that sending is observable.
\<close>

type_synonym timestamp = int

record user =
  user_id :: nat
  user_email :: string
  user_password :: string
  reset_otp :: "string option"
  reset_expires :: "timestamp option"

record state =
  users1 :: "user list"
  users1_id_seq :: nat
  outbox :: "(string \<times> string) list"

datatype db_error = connection_error | unique_violation | string_data_right_truncation

text \<open>The seven SQL statements the handlers send, with their parameters in order.\<close>

datatype query =
    SELECT_by_email string
  | INSERT_user string string
  | UPDATE_reset string string
  | SELECT_reset_match string string
  | UPDATE_password_clear_reset string string
  | SELECT_by_id nat
  | UPDATE_password_by_id string nat

text \<open>
  One statement runs atomically at database time \<open>t\<close>.  A value longer than its column
  is refused before the row is built; the sequence advances before the unique indexes
  are checked, so a rejected duplicate still consumes an id.  A comparison with
  \<^verbatim>\<open>NULL\<close> selects nothing.
\<close>

fun pool_query :: "timestamp \<Rightarrow> query \<Rightarrow> state \<Rightarrow> (db_error + user list) \<times> state" where
  "pool_query t (SELECT_by_email e) st =
     (Inr (filter (\<lambda>u. user_email u = e) (users1 st)), st)"
| "pool_query t (INSERT_user e p) st =
     (if 255 < length e \<or> 255 < length p then (Inl string_data_right_truncation, st)
      else let i = Suc (users1_id_seq st); st1 = st\<lparr>users1_id_seq := i\<rparr> in
        if e \<in> set (map user_email (users1 st)) \<or> i \<in> set (map user_id (users1 st))
        then (Inl unique_violation, st1)
        else (Inr [], st1\<lparr>users1 := users1 st @
                [\<lparr>user_id = i, user_email = e, user_password = p,
                  reset_otp = None, reset_expires = None\<rparr>]\<rparr>))"
| "pool_query t (UPDATE_reset otp e) st =
     (if 10 < length otp then (Inl string_data_right_truncation, st)
      else (Inr [], st\<lparr>users1 := map (\<lambda>u. if user_email u = e
                then u\<lparr>reset_otp := Some otp, reset_expires := Some (t + 5 * 60 * 1000)\<rparr>
                else u) (users1 st)\<rparr>))"
| "pool_query t (SELECT_reset_match e otp) st =
     (Inr (filter (\<lambda>u. user_email u = e \<and> reset_otp u = Some otp \<and>
              (case reset_expires u of None \<Rightarrow> False | Some x \<Rightarrow> t < x)) (users1 st)), st)"
| "pool_query t (UPDATE_password_clear_reset p e) st =
     (if 255 < length p then (Inl string_data_right_truncation, st)
      else (Inr [], st\<lparr>users1 := map (\<lambda>u. if user_email u = e
                then u\<lparr>user_password := p, reset_otp := None, reset_expires := None\<rparr>
                else u) (users1 st)\<rparr>))"
| "pool_query t (SELECT_by_id i) st =
     (Inr (filter (\<lambda>u. user_id u = i) (users1 st)), st)"
| "pool_query t (UPDATE_password_by_id p i) st =
     (if 255 < length p then (Inl string_data_right_truncation, st)
      else (Inr [], st\<lparr>users1 := map (\<lambda>u. if user_id u = i
                then u\<lparr>user_password := p\<rparr> else u) (users1 st)\<rparr>))"

section \<open>Collaborators and the environment of one request\<close>

text \<open>
  The libraries the servers call are parameters: express-validator's \<^verbatim>\<open>isEmail\<close>,
  bcrypt's \<^verbatim>\<open>hash\<close> (the third argument stands for the salt it draws) and
  \<^verbatim>\<open>compare\<close>, jsonwebtoken's \<^verbatim>\<open>sign\<close> (payload, secret, lifetime in seconds,
  clock) and \<^verbatim>\<open>verify\<close> (token, secret, clock; \<open>None\<close> when it throws), and the
  signing secret read at start-up.
\<close>

record jwt_payload =
  payload_id :: nat
  payload_email :: string

record env =
  isEmail :: "string \<Rightarrow> bool"
  bcrypt_hash :: "string \<Rightarrow> nat \<Rightarrow> string \<Rightarrow> string"
  bcrypt_compare :: "string \<Rightarrow> string \<Rightarrow> bool"
  jwt_sign :: "jwt_payload \<Rightarrow> string \<Rightarrow> int \<Rightarrow> timestamp \<Rightarrow> string"
  jwt_verify :: "string \<Rightarrow> string \<Rightarrow> timestamp \<Rightarrow> jwt_payload option"
  JWT_SECRET :: string

text \<open>
  What the outside world does during one request: the clock (read by \<^verbatim>\<open>NOW()\<close>
  and by the token library), whether the pool answers (a query that throws leaves the
  table as it was, and every handler writes at most once, in its last statement, so one
  flag per request loses no outcome), the salt bcrypt draws, the value of
  \<^verbatim>\<open>Math.random()\<close> as a real number in \<open>[0, 1)\<close>, whether the mail transporter was
  set up, and whether \<^verbatim>\<open>sendMail\<close> delivers.
\<close>

record world =
  now :: timestamp
  db_up :: bool
  salt :: string
  random :: real
  transporter_ok :: bool
  mail_up :: bool

definition SALT_ROUNDS :: nat where
  "SALT_ROUNDS = 10"

definition dbQuery :: "world \<Rightarrow> query \<Rightarrow> state \<Rightarrow> (db_error + user list) \<times> state" where
  "dbQuery w q st = (if db_up w then pool_query (now w) q st else (Inl connection_error, st))"

text \<open>\<^verbatim>\<open>String(n)\<close> of an integer: its decimal digits, with a minus sign when negative.\<close>

fun String_nat :: "nat \<Rightarrow> string" where
  "String_nat n =
     (if n < 10 then [''0123456789'' ! n]
      else String_nat (n div 10) @ [''0123456789'' ! (n mod 10)])"

declare String_nat.simps [simp del]

definition String :: "int \<Rightarrow> string" where
  "String i = (if i < 0 then CHR ''-'' # String_nat (nat (- i)) else String_nat (nat i))"

definition generateOtp :: "world \<Rightarrow> string" where
  "generateOtp w = String \<lfloor>100000 + random w * 900000\<rfloor>"

text \<open>
  \<^verbatim>\<open>sendOtpEmail\<close> of the Production Ready server answers \<open>False\<close> without a
  transporter or when \<^verbatim>\<open>sendMail\<close> throws; the Render server has no transporter
  test; the legacy server returns the promise of \<^verbatim>\<open>sendMail\<close> itself, so a failed
  delivery is a rejection (\<open>False\<close> below) that the handler's \<^verbatim>\<open>catch\<close> receives.
\<close>

definition sendOtpEmail :: "world \<Rightarrow> string \<Rightarrow> string \<Rightarrow> state \<Rightarrow> bool \<times> state" where
  "sendOtpEmail w toEmail otp st =
     (if \<not> transporter_ok w then (False, st)
      else if mail_up w then (True, st\<lparr>outbox := outbox st @ [(toEmail, otp)]\<rparr>)
      else (False, st))"

definition sendOtpEmail_render :: "world \<Rightarrow> string \<Rightarrow> string \<Rightarrow> state \<Rightarrow> bool \<times> state" where
  "sendOtpEmail_render w toEmail otp st =
     (if mail_up w then (True, st\<lparr>outbox := outbox st @ [(toEmail, otp)]\<rparr>)
      else (False, st))"

definition sendOtpEmail_legacy :: "world \<Rightarrow> string \<Rightarrow> string \<Rightarrow> state \<Rightarrow> bool \<times> state" where
  "sendOtpEmail_legacy w toEmail otp st =
     (if mail_up w then (True, st\<lparr>outbox := outbox st @ [(toEmail, otp)]\<rparr>)
      else (False, st))"

section \<open>Responses\<close>

text \<open>
  A response is the HTTP status with the JSON body: \<^verbatim>\<open>{message}\<close>, \<^verbatim>\<open>{error}\<close>,
  \<^verbatim>\<open>{errors: [...]}\<close> (the fields that failed validation),
  \<^verbatim>\<open>{token, user: {id, email}}\<close> or \<^verbatim>\<open>{user: {id, email}}\<close>.
\<close>

datatype json =
    JMessage string
  | JError string
  | JErrors "string list"
  | JTokenUser string nat string
  | JUser nat string

datatype response = Response nat json

section \<open>The auth middleware\<close>

text \<open>\<^verbatim>\<open>header.split(' ')\<close>: the pieces between single spaces, empty pieces included.\<close>

fun js_split :: "string \<Rightarrow> char \<Rightarrow> string list" where
  "js_split [] sep = [[]]"
| "js_split (ch # cs) sep =
     (if ch = sep then [] # js_split cs sep
      else (case js_split cs sep of [] \<Rightarrow> [[ch]] | p # ps \<Rightarrow> (ch # p) # ps))"

definition verifyToken :: "env \<Rightarrow> world \<Rightarrow> string option \<Rightarrow> response + jwt_payload" where
  "verifyToken c w header =
     (case header of
        None \<Rightarrow> Inl (Response 401 (JError ''No token provided''))
      | Some h \<Rightarrow>
          if h = [] then Inl (Response 401 (JError ''No token provided''))
          else let parts = js_split h (CHR '' '') in
            if length parts \<noteq> 2 \<or> parts ! 0 \<noteq> ''Bearer''
            then Inl (Response 401 (JError ''Malformed token''))
            else (case jwt_verify c (parts ! 1) (JWT_SECRET c) (now w) of
                    None \<Rightarrow> Inl (Response 401 (JError ''Invalid token''))
                  | Some payload \<Rightarrow> Inr payload))"

section \<open>Routes\<close>

text \<open>
  Request bodies are taken as parsed: every field the handler reads is a string, but for
  the password of a login (see there).  \<^verbatim>\<open>validationResult\<close> lists the fields that fail \<^verbatim>\<open>isEmail()\<close> and
  \<^verbatim>\<open>isLength({ min: 6 })\<close>.
\<close>

definition validationResult :: "env \<Rightarrow> string \<Rightarrow> string \<Rightarrow> string list" where
  "validationResult c email password =
     (if isEmail c email then [] else [''email'']) @
     (if 6 \<le> length password then [] else [''password''])"

definition signup :: "env \<Rightarrow> world \<Rightarrow> string \<Rightarrow> string \<Rightarrow> state \<Rightarrow> response \<times> state" where
  "signup c w email password st =
     (let errors = validationResult c email password in
      if errors \<noteq> [] then (Response 400 (JErrors errors), st)
      else (case dbQuery w (SELECT_by_email email) st of
              (Inl err, st1) \<Rightarrow> (Response 500 (JError ''Signup failed''), st1)
            | (Inr rows, st1) \<Rightarrow>
                if 0 < length rows then (Response 400 (JError ''User already exists''), st1)
                else let hashed = bcrypt_hash c password SALT_ROUNDS (salt w) in
                  (case dbQuery w (INSERT_user email hashed) st1 of
                     (Inl err, st2) \<Rightarrow> (Response 500 (JError ''Signup failed''), st2)
                   | (Inr _, st2) \<Rightarrow> (Response 200 (JMessage ''Signup successful''), st2))))"

text \<open>The legacy server inserts without looking the email up first.\<close>

definition signup_legacy :: "env \<Rightarrow> world \<Rightarrow> string \<Rightarrow> string \<Rightarrow> state \<Rightarrow> response \<times> state" where
  "signup_legacy c w email password st =
     (let errors = validationResult c email password in
      if errors \<noteq> [] then (Response 400 (JErrors errors), st)
      else let hashed = bcrypt_hash c password SALT_ROUNDS (salt w) in
        (case dbQuery w (INSERT_user email hashed) st of
           (Inl err, st1) \<Rightarrow> (Response 500 (JError ''Signup failed''), st1)
         | (Inr _, st1) \<Rightarrow> (Response 200 (JMessage ''Signup successful''), st1)))"

text \<open>
  The login route reads its body without validating it.  Its password is therefore
  \<open>Some\<close> string, or \<open>None\<close> when the body has no password or one that is not a
  string: \<^verbatim>\<open>bcrypt.compare\<close> then throws, and the \<^verbatim>\<open>catch\<close> answers 500.  The
  comparison is reached only when the lookup has found a row.
\<close>

definition login ::
  "env \<Rightarrow> world \<Rightarrow> string \<Rightarrow> string option \<Rightarrow> state \<Rightarrow> response \<times> state" where
  "login c w email password st =
     (case dbQuery w (SELECT_by_email email) st of
        (Inl err, st1) \<Rightarrow> (Response 500 (JError ''Login failed''), st1)
      | (Inr rows, st1) \<Rightarrow>
          (case rows of
             [] \<Rightarrow> (Response 401 (JError ''Invalid credentials''), st1)
           | user # _ \<Rightarrow>
               (case password of
                  None \<Rightarrow> (Response 500 (JError ''Login failed''), st1)
                | Some data \<Rightarrow>
                    if \<not> bcrypt_compare c data (user_password user)
                    then (Response 401 (JError ''Invalid credentials''), st1)
                    else let token = jwt_sign c
                           \<lparr>payload_id = user_id user, payload_email = user_email user\<rparr>
                           (JWT_SECRET c) (60 * 60) (now w)
                      in (Response 200 (JTokenUser token (user_id user) (user_email user)),
                          st1))))"

text \<open>
  The one-time code is drawn before the \<^verbatim>\<open>try\<close> block.  The two production servers
  differ in their messages only.
\<close>

definition request_reset :: "env \<Rightarrow> world \<Rightarrow> string \<Rightarrow> state \<Rightarrow> response \<times> state" where
  "request_reset c w email st =
     (let otp = generateOtp w in
      case dbQuery w (SELECT_by_email email) st of
        (Inl err, st1) \<Rightarrow> (Response 500 (JError ''Could not send OTP''), st1)
      | (Inr rows, st1) \<Rightarrow>
          if length rows = 0 then (Response 404 (JError ''User not found''), st1)
          else (case dbQuery w (UPDATE_reset otp email) st1 of
                  (Inl err, st2) \<Rightarrow> (Response 500 (JError ''Could not send OTP''), st2)
                | (Inr _, st2) \<Rightarrow>
                    (case sendOtpEmail w email otp st2 of
                       (False, st3) \<Rightarrow> (Response 500 (JError ''Failed to send OTP email''), st3)
                     | (True, st3) \<Rightarrow> (Response 200 (JMessage ''OTP sent to email''), st3))))"

definition request_reset_render :: "env \<Rightarrow> world \<Rightarrow> string \<Rightarrow> state \<Rightarrow> response \<times> state" where
  "request_reset_render c w email st =
     (let otp = generateOtp w in
      case dbQuery w (SELECT_by_email email) st of
        (Inl err, st1) \<Rightarrow> (Response 500 (JError ''Request failed''), st1)
      | (Inr rows, st1) \<Rightarrow>
          if length rows = 0 then (Response 404 (JError ''User not found''), st1)
          else (case dbQuery w (UPDATE_reset otp email) st1 of
                  (Inl err, st2) \<Rightarrow> (Response 500 (JError ''Request failed''), st2)
                | (Inr _, st2) \<Rightarrow>
                    (case sendOtpEmail_render w email otp st2 of
                       (False, st3) \<Rightarrow> (Response 500 (JError ''Email send failed''), st3)
                     | (True, st3) \<Rightarrow> (Response 200 (JMessage ''OTP sent successfully''), st3))))"

text \<open>The legacy server updates and mails without looking the email up.\<close>

definition request_reset_legacy :: "env \<Rightarrow> world \<Rightarrow> string \<Rightarrow> state \<Rightarrow> response \<times> state" where
  "request_reset_legacy c w email st =
     (let otp = generateOtp w in
      case dbQuery w (UPDATE_reset otp email) st of
        (Inl err, st1) \<Rightarrow> (Response 500 (JError ''Could not send OTP''), st1)
      | (Inr _, st1) \<Rightarrow>
          (case sendOtpEmail_legacy w email otp st1 of
             (False, st2) \<Rightarrow> (Response 500 (JError ''Could not send OTP''), st2)
           | (True, st2) \<Rightarrow> (Response 200 (JMessage ''OTP sent to email''), st2)))"

definition verify_reset ::
  "env \<Rightarrow> world \<Rightarrow> string \<Rightarrow> string \<Rightarrow> string \<Rightarrow> state \<Rightarrow> response \<times> state" where
  "verify_reset c w email otp newPassword st =
     (case dbQuery w (SELECT_reset_match email otp) st of
        (Inl err, st1) \<Rightarrow> (Response 500 (JError ''Reset failed''), st1)
      | (Inr rows, st1) \<Rightarrow>
          if length rows = 0 then (Response 400 (JError ''Invalid or expired OTP''), st1)
          else let hashed = bcrypt_hash c newPassword SALT_ROUNDS (salt w) in
            (case dbQuery w (UPDATE_password_clear_reset hashed email) st1 of
               (Inl err, st2) \<Rightarrow> (Response 500 (JError ''Reset failed''), st2)
             | (Inr _, st2) \<Rightarrow> (Response 200 (JMessage ''Password reset successful''), st2)))"

text \<open>
  \<^verbatim>\<open>result.rows[0]\<close> is \<^verbatim>\<open>undefined\<close> when the token's id has no row; reading its
  \<^verbatim>\<open>password\<close> throws, and the \<^verbatim>\<open>catch\<close> answers 500.
\<close>

definition change_password ::
  "env \<Rightarrow> world \<Rightarrow> string option \<Rightarrow> string \<Rightarrow> string \<Rightarrow> state \<Rightarrow> response \<times> state" where
  "change_password c w header oldPassword newPassword st =
     (case verifyToken c w header of
        Inl res \<Rightarrow> (res, st)
      | Inr req_user \<Rightarrow>
          (case dbQuery w (SELECT_by_id (payload_id req_user)) st of
             (Inl err, st1) \<Rightarrow> (Response 500 (JError ''Change password failed''), st1)
           | (Inr rows, st1) \<Rightarrow>
               (case rows of
                  [] \<Rightarrow> (Response 500 (JError ''Change password failed''), st1)
                | user # _ \<Rightarrow>
                    if \<not> bcrypt_compare c oldPassword (user_password user)
                    then (Response 400 (JError ''Old password incorrect''), st1)
                    else let hashed = bcrypt_hash c newPassword SALT_ROUNDS (salt w) in
                      (case dbQuery w (UPDATE_password_by_id hashed (payload_id req_user)) st1 of
                         (Inl err, st2) \<Rightarrow> (Response 500 (JError ''Change password failed''), st2)
                       | (Inr _, st2) \<Rightarrow> (Response 200 (JMessage ''Password changed''), st2)))))"

definition me :: "env \<Rightarrow> world \<Rightarrow> string option \<Rightarrow> state \<Rightarrow> response \<times> state" where
  "me c w header st =
     (case verifyToken c w header of
        Inl res \<Rightarrow> (res, st)
      | Inr req_user \<Rightarrow>
          (case dbQuery w (SELECT_by_id (payload_id req_user)) st of
             (Inl err, st1) \<Rightarrow> (Response 500 (JError ''Failed to get user profile''), st1)
           | (Inr rows, st1) \<Rightarrow>
               (case rows of
                  [] \<Rightarrow> (Response 404 (JError ''User not found''), st1)
                | user # _ \<Rightarrow> (Response 200 (JUser (user_id user) (user_email user)), st1))))"

text \<open>The routes of the Production Ready server as one dispatcher, and a run of requests.\<close>

datatype request =
    Signup string string
  | Login string "string option"
  | RequestReset string
  | VerifyReset string string string
  | ChangePassword "string option" string string
  | GetProfile "string option"

fun handle :: "env \<Rightarrow> world \<Rightarrow> request \<Rightarrow> state \<Rightarrow> response \<times> state" where
  "handle c w (Signup email password) st = signup c w email password st"
| "handle c w (Login email password) st = login c w email password st"
| "handle c w (RequestReset email) st = request_reset c w email st"
| "handle c w (VerifyReset email otp newPassword) st = verify_reset c w email otp newPassword st"
| "handle c w (ChangePassword header oldPassword newPassword) st =
     change_password c w header oldPassword newPassword st"
| "handle c w (GetProfile header) st = me c w header st"

fun run :: "env \<Rightarrow> (world \<times> request) list \<Rightarrow> state \<Rightarrow> state" where
  "run c [] st = st"
| "run c ((w, r) # rs) st = run c rs (snd (handle c w r st))"

section \<open>Concurrent signups\<close>

text \<open>
  A handler gives up control at each \<^verbatim>\<open>await\<close>, and the database runs one statement
  at a time.  A signup in flight is therefore at its lookup, at its insert, or finished,
  and two signups interleave statement by statement: in a schedule \<open>True\<close> lets the
  first request take its next step and \<open>False\<close> the second.
\<close>

datatype signup_pc = At_select | At_insert | Finished response

definition signup_step ::
  "env \<Rightarrow> world \<Rightarrow> string \<Rightarrow> string \<Rightarrow> signup_pc \<Rightarrow> state \<Rightarrow> signup_pc \<times> state" where
  "signup_step c w email password pc st =
     (case pc of
        At_select \<Rightarrow>
          (let errors = validationResult c email password in
           if errors \<noteq> [] then (Finished (Response 400 (JErrors errors)), st)
           else (case dbQuery w (SELECT_by_email email) st of
                   (Inl err, st1) \<Rightarrow> (Finished (Response 500 (JError ''Signup failed'')), st1)
                 | (Inr rows, st1) \<Rightarrow>
                     if 0 < length rows
                     then (Finished (Response 400 (JError ''User already exists'')), st1)
                     else (At_insert, st1)))
      | At_insert \<Rightarrow>
          (let hashed = bcrypt_hash c password SALT_ROUNDS (salt w) in
           case dbQuery w (INSERT_user email hashed) st of
             (Inl err, st2) \<Rightarrow> (Finished (Response 500 (JError ''Signup failed'')), st2)
           | (Inr _, st2) \<Rightarrow> (Finished (Response 200 (JMessage ''Signup successful'')), st2))
      | Finished res \<Rightarrow> (Finished res, st))"

fun signup_race ::
  "env \<Rightarrow> world \<times> string \<times> string \<Rightarrow> world \<times> string \<times> string \<Rightarrow> bool list \<Rightarrow>
   signup_pc \<times> signup_pc \<times> state \<Rightarrow> signup_pc \<times> signup_pc \<times> state" where
  "signup_race c r1 r2 [] cfg = cfg"
| "signup_race c (w1, email1, password1) (w2, email2, password2) (first # sched) (pc1, pc2, st) =
     (if first
      then (case signup_step c w1 email1 password1 pc1 st of
              (pc1', st') \<Rightarrow>
                signup_race c (w1, email1, password1) (w2, email2, password2) sched (pc1', pc2, st'))
      else (case signup_step c w2 email2 password2 pc2 st of
              (pc2', st') \<Rightarrow>
                signup_race c (w1, email1, password1) (w2, email2, password2) sched (pc1, pc2', st')))"

text \<open>How many statements a signup in flight still has to run, at most.\<close>

fun steps_left :: "signup_pc \<Rightarrow> nat" where
  "steps_left At_select = 2"
| "steps_left At_insert = 1"
| "steps_left (Finished res) = 0"

section \<open>Contracts of the collaborators, invariants of the store\<close>

text \<open>
  What the handlers rely on: bcrypt verifies the password a digest was made from, and its
  digests fit the column; jsonwebtoken accepts, with the signing secret and before the
  lifetime has passed (both clocks in whole seconds), the token it signed, and gives back
  the payload; \<^verbatim>\<open>isEmail\<close> refuses addresses longer than 254 characters.
\<close>

definition bcrypt_contract :: "env \<Rightarrow> bool" where
  "bcrypt_contract c =
     (\<forall>data rounds s. bcrypt_compare c data (bcrypt_hash c data rounds s) \<and>
        length (bcrypt_hash c data rounds s) \<le> 255)"

definition jwt_contract :: "env \<Rightarrow> bool" where
  "jwt_contract c =
     (\<forall>payload secret e t t'. t' div 1000 < t div 1000 + e \<longrightarrow>
        jwt_verify c (jwt_sign c payload secret e t) secret t' = Some payload)"

definition isEmail_contract :: "env \<Rightarrow> bool" where
  "isEmail_contract c = (\<forall>e. isEmail c e \<longrightarrow> length e \<le> 254)"

definition registered :: "state \<Rightarrow> string \<Rightarrow> bool" where
  "registered st email = (email \<in> set (map user_email (users1 st)))"

text \<open>
  The primary key and the unique index hold, and no id is ahead of the sequence.
\<close>

definition store_inv :: "state \<Rightarrow> bool" where
  "store_inv st =
     (distinct (map user_id (users1 st)) \<and> distinct (map user_email (users1 st)) \<and>
      (\<forall>u \<in> set (users1 st). user_id u \<le> users1_id_seq st))"

text \<open>The joint invariant of the reset fields: no expiry without a code.\<close>

definition reset_inv :: "state \<Rightarrow> bool" where
  "reset_inv st = (\<forall>u \<in> set (users1 st). reset_otp u = None \<longrightarrow> reset_expires u = None)"

text \<open>Stronger: the two reset fields are null together or set together.\<close>

definition reset_paired :: "state \<Rightarrow> bool" where
  "reset_paired st = (\<forall>u \<in> set (users1 st). (reset_otp u = None) = (reset_expires u = None))"

text \<open>
  An account of this email has the code \<open>otp\<close> pending at time \<open>t\<close>: the code is stored
  and its expiry lies strictly after \<open>t\<close>.
\<close>

definition pending :: "state \<Rightarrow> string \<Rightarrow> string \<Rightarrow> timestamp \<Rightarrow> bool" where
  "pending st email otp t =
     (\<exists>u \<in> set (users1 st). user_email u = email \<and> reset_otp u = Some otp \<and>
        (\<exists>x. reset_expires u = Some x \<and> t < x))"

section \<open>A concrete environment\<close>

text \<open>
  Stand-ins for the libraries that meet the contracts, used to run the handlers on
  concrete requests: a hasher that prefixes two characters of salt and, as bcrypt does,
  reads at most 72 characters of the password; tokens that spell out secret, id and
  email.
\<close>

definition demo_hash :: "string \<Rightarrow> nat \<Rightarrow> string \<Rightarrow> string" where
  "demo_hash data rounds s = take 2 (s @ ''..'') @ take 72 data"

definition demo_compare :: "string \<Rightarrow> string \<Rightarrow> bool" where
  "demo_compare data encrypted = (drop 2 encrypted = take 72 data)"

definition demo_sign :: "jwt_payload \<Rightarrow> string \<Rightarrow> int \<Rightarrow> timestamp \<Rightarrow> string" where
  "demo_sign payload secret e t =
     secret @ ''.'' @ replicate (payload_id payload) (CHR ''i'') @ ''.'' @ payload_email payload"

definition demo_verify :: "string \<Rightarrow> string \<Rightarrow> timestamp \<Rightarrow> jwt_payload option" where
  "demo_verify token secret t =
     (if take (Suc (length secret)) token = secret @ ''.''
      then let rest = drop (Suc (length secret)) token;
               n = length (takeWhile (\<lambda>ch. ch = CHR ''i'') rest)
           in Some \<lparr>payload_id = n, payload_email = drop (Suc n) rest\<rparr>
      else None)"

definition demo_env :: env where
  "demo_env = \<lparr>isEmail = (\<lambda>e. CHR ''@'' \<in> set e \<and> length e \<le> 254),
     bcrypt_hash = demo_hash, bcrypt_compare = demo_compare,
     jwt_sign = demo_sign, jwt_verify = demo_verify,
     JWT_SECRET = ''k''\<rparr>"

definition demo_world :: world where
  "demo_world = \<lparr>now = 1000000, db_up = True, salt = ''s1'', random = 1 / 2,
     transporter_ok = True, mail_up = True\<rparr>"

definition empty_state :: state where
  "empty_state = \<lparr>users1 = [], users1_id_seq = 0, outbox = []\<rparr>"

text \<open>The store after \<^verbatim>\<open>a@x.com\<close> has signed up with the password \<^verbatim>\<open>secret1\<close>.\<close>

definition demo_state :: state where
  "demo_state = snd (signup demo_env demo_world ''a@x.com'' ''secret1'' empty_state)"

text \<open>A later request, and one during which mail delivery is down.\<close>

definition later_world :: world where
  "later_world = \<lparr>now = 2000000, db_up = True, salt = ''s2'', random = 1 / 4,
     transporter_ok = True, mail_up = True\<rparr>"

definition mail_down_world :: world where
  "mail_down_world = demo_world\<lparr>mail_up := False\<rparr>"

text \<open>The store after \<^verbatim>\<open>a@x.com\<close> has then asked for a reset code.\<close>

definition demo_reset_state :: state where
  "demo_reset_state = snd (request_reset demo_env demo_world ''a@x.com'' demo_state)"

section \<open>Facts about the concrete environment and the collaborators\<close>

lemma demo_bcrypt: "bcrypt_contract demo_env"
  by (auto simp: bcrypt_contract_def demo_env_def demo_hash_def demo_compare_def)

lemma takeWhile_replicate_stop:
  "\<not> P y \<Longrightarrow> P x \<Longrightarrow> takeWhile P (replicate n x @ y # ys) = replicate n x"
  by (induction n) auto

lemma demo_jwt: "jwt_contract demo_env"
  by (simp add: jwt_contract_def demo_env_def demo_sign_def demo_verify_def
      takeWhile_replicate_stop Let_def)

lemma demo_isEmail: "isEmail_contract demo_env"
  by (simp add: isEmail_contract_def demo_env_def)

lemma generateOtp_demo: "generateOtp demo_world = ''550000''"
  by (simp add: generateOtp_def demo_world_def String_def String_nat.simps)

lemma demo_state_eq: "demo_state = \<lparr>users1 =
     [\<lparr>user_id = 1, user_email = ''a@x.com'', user_password = ''s1secret1'',
         reset_otp = None, reset_expires = None\<rparr>],
     users1_id_seq = 1, outbox = []\<rparr>"
  by (simp add: demo_state_def signup_def validationResult_def dbQuery_def demo_env_def demo_world_def empty_state_def SALT_ROUNDS_def demo_hash_def)

lemma String_nat_length: "0 < k \<Longrightarrow> n < 10 ^ k \<Longrightarrow> length (String_nat n) \<le> k"
proof (induction k arbitrary: n)
  case 0 then show ?case by simp
next
  case (Suc k)
  show ?case
  proof (cases "n < 10")
    case True then show ?thesis by (subst String_nat.simps) simp
  next
    case False
    then have "0 < k" using Suc.prems by (cases k) auto
    moreover have "n div 10 < 10 ^ k" using Suc.prems by (simp add: less_mult_imp_div_less mult.commute)
    ultimately have "length (String_nat (n div 10)) \<le> k" by (rule Suc.IH)
    with False show ?thesis by (subst String_nat.simps) simp
  qed
qed

lemma generateOtp_length:
  assumes "0 \<le> random w" "random w < 1"
  shows "length (generateOtp w) \<le> 10"
proof -
  have lo: "0 \<le> \<lfloor>random w * 900000\<rfloor>" using assms by simp
  have hi: "\<lfloor>random w * 900000\<rfloor> < 900000" using assms by (simp add: floor_less_iff)
  have "nat (100000 + \<lfloor>random w * 900000\<rfloor>) < 1000000" using lo hi by linarith
  then have "nat (100000 + \<lfloor>random w * 900000\<rfloor>) < 10 ^ 6" by simp
  then have "length (String_nat (nat (100000 + \<lfloor>random w * 900000\<rfloor>))) \<le> 6"
    by (intro String_nat_length) simp_all
  moreover have nneg: "\<not> (100000 + \<lfloor>random w * 900000\<rfloor> < 0)" using lo by linarith
  have "generateOtp w = String_nat (nat (100000 + \<lfloor>random w * 900000\<rfloor>))"
    by (simp add: generateOtp_def String_def nneg)
  ultimately show ?thesis by simp
qed

lemma dbQuery_up: "db_up w \<Longrightarrow> dbQuery w q st = pool_query (now w) q st"
  by (simp add: dbQuery_def)

lemma signup_ok:
  assumes "bcrypt_contract c" "isEmail_contract c" "store_inv st"
    "isEmail c email" "6 \<le> length password" "\<not> registered st email" "db_up w"
  shows "signup c w email password st =
     (Response 200 (JMessage ''Signup successful''),
      st\<lparr>users1_id_seq := Suc (users1_id_seq st),
         users1 := users1 st @ [\<lparr>user_id = Suc (users1_id_seq st), user_email = email,
            user_password = bcrypt_hash c password SALT_ROUNDS (salt w),
            reset_otp = None, reset_expires = None\<rparr>]\<rparr>)"
proof -
  have a: "filter (\<lambda>u. user_email u = email) (users1 st) = []"
    using assms(6) by (auto simp: filter_empty_conv registered_def)
  have b: "Suc (users1_id_seq st) \<notin> user_id ` set (users1 st)"
    using assms(3) by (auto simp: store_inv_def)
  have c: "length email \<le> 255"
    using assms(2,4) by (auto simp: isEmail_contract_def dest!: spec[of _ email])
  have d: "length (bcrypt_hash c password SALT_ROUNDS (salt w)) \<le> 255"
    using assms(1) by (simp add: bcrypt_contract_def)
  have e: "email \<notin> user_email ` set (users1 st)"
    using assms(6) by (simp add: registered_def)
  show ?thesis
    using assms(4,5,7) a b c d e
    by (simp add: signup_def validationResult_def dbQuery_def Let_def not_less)
qed

lemma login_ok:
  assumes "filter (\<lambda>u. user_email u = email) (users1 st) = u # us"
    "bcrypt_compare c password (user_password u)" "db_up w"
  shows "login c w email (Some password) st =
     (Response 200 (JTokenUser
        (jwt_sign c \<lparr>payload_id = user_id u, payload_email = user_email u\<rparr>
           (JWT_SECRET c) 3600 (now w)) (user_id u) (user_email u)), st)"
  using assms by (simp add: login_def dbQuery_def)

lemma empty_store_inv: "store_inv empty_state"
  by (simp add: store_inv_def empty_state_def)

lemma generateOtp_later: "generateOtp later_world = ''325000''"
  by (simp add: generateOtp_def later_world_def String_def String_nat.simps)

lemma demo_world_simps:
  "db_up demo_world" "0 \<le> random demo_world" "random demo_world < 1" "now demo_world = 1000000"
  "salt demo_world = ''s1''" "transporter_ok demo_world" "mail_up demo_world"
  by (simp_all add: demo_world_def)

lemma later_world_simps:
  "db_up later_world" "0 \<le> random later_world" "random later_world < 1" "now later_world = 2000000"
  "salt later_world = ''s2''" "transporter_ok later_world" "mail_up later_world"
  by (simp_all add: later_world_def)

lemma demo_registered: "registered demo_state ''a@x.com''"
  by (simp add: registered_def demo_state_eq)

section \<open>Facts about the statements and the handlers\<close>

lemma pending_filter:
  "(filter (\<lambda>u. user_email u = e \<and> reset_otp u = Some otp \<and>
        (case reset_expires u of None \<Rightarrow> False | Some x \<Rightarrow> t < x)) (users1 st) = []) =
   (\<not> pending st e otp t)"
  by (auto simp: pending_def filter_empty_conv split: option.splits)

lemma verify_reset_fail:
  assumes "db_up w" "\<not> pending st email otp (now w)"
  shows "verify_reset c w email otp newPassword st =
     (Response 400 (JError ''Invalid or expired OTP''), st)"
  using assms pending_filter [of email otp "now w" st]
  by (simp add: verify_reset_def dbQuery_def)

lemma verify_reset_ok:
  assumes "bcrypt_contract c" "db_up w" "pending st email otp (now w)"
  shows "verify_reset c w email otp newPassword st =
     (Response 200 (JMessage ''Password reset successful''),
      st\<lparr>users1 := map (\<lambda>u. if user_email u = email
          then u\<lparr>user_password := bcrypt_hash c newPassword SALT_ROUNDS (salt w),
                 reset_otp := None, reset_expires := None\<rparr>
          else u) (users1 st)\<rparr>)"
proof -
  have "length (bcrypt_hash c newPassword SALT_ROUNDS (salt w)) \<le> 255"
    using assms(1) by (simp add: bcrypt_contract_def)
  then show ?thesis
    using assms(2,3) pending_filter [of email otp "now w" st]
    by (simp add: verify_reset_def dbQuery_def Let_def not_less)
qed

lemma pending_map:
  "pending (st\<lparr>users1 := map f (users1 st)\<rparr>) e otp t =
     (\<exists>u \<in> set (users1 st). user_email (f u) = e \<and> reset_otp (f u) = Some otp \<and>
        (\<exists>x. reset_expires (f u) = Some x \<and> t < x))"
  by (simp add: pending_def)

lemma not_pending_cleared:
  "\<not> pending (st\<lparr>users1 := map (\<lambda>u. if user_email u = email
          then u\<lparr>user_password := h, reset_otp := None, reset_expires := None\<rparr>
          else u) (users1 st)\<rparr>) email otp t"
  by (simp add: pending_map)

lemma pending_issued:
  assumes "registered st email" "t < now w + 300000"
  shows "pending (st\<lparr>users1 := map (\<lambda>u. if user_email u = email
          then u\<lparr>reset_otp := Some otp, reset_expires := Some (now w + 300000)\<rparr>
          else u) (users1 st)\<rparr>) email otp t"
proof -
  let ?f = "\<lambda>u. if user_email u = email
          then u\<lparr>reset_otp := Some otp, reset_expires := Some (now w + 300000)\<rparr> else u"
  from assms(1) obtain u where u: "u \<in> set (users1 st)" "user_email u = email"
    by (auto simp: registered_def)
  from u(1) have "?f u \<in> set (map ?f (users1 st))" by simp
  moreover have "user_email (?f u) = email \<and> reset_otp (?f u) = Some otp \<and>
      (\<exists>x. reset_expires (?f u) = Some x \<and> t < x)"
    using u(2) assms(2) by simp
  ultimately have "\<exists>v \<in> set (map ?f (users1 st)). user_email v = email \<and>
      reset_otp v = Some otp \<and> (\<exists>x. reset_expires v = Some x \<and> t < x)"
    by (rule rev_bexI)
  then show ?thesis
    by (simp add: pending_def del: set_map)
qed

lemma not_pending_expired:
  assumes "now w + 300000 \<le> t"
  shows "\<not> pending (st\<lparr>users1 := map (\<lambda>u. if user_email u = email
          then u\<lparr>reset_otp := Some otp, reset_expires := Some (now w + 300000)\<rparr>
          else u) (users1 st)\<rparr>) email otp' t"
  using assms by (simp add: pending_map)

lemma registered_filter:
  "(filter (\<lambda>u. user_email u = e) (users1 st) = []) = (\<not> registered st e)"
  by (auto simp: registered_def filter_empty_conv)

lemma request_reset_registered:
  assumes "registered st email" "db_up w" "0 \<le> random w" "random w < 1"
  shows "request_reset c w email st =
     (let st2 = st\<lparr>users1 := map (\<lambda>u. if user_email u = email
          then u\<lparr>reset_otp := Some (generateOtp w), reset_expires := Some (now w + 300000)\<rparr>
          else u) (users1 st)\<rparr>
      in if transporter_ok w \<and> mail_up w
         then (Response 200 (JMessage ''OTP sent to email''),
               st2\<lparr>outbox := outbox st @ [(email, generateOtp w)]\<rparr>)
         else (Response 500 (JError ''Failed to send OTP email''), st2))"
  using assms generateOtp_length [of w] registered_filter [of email st]
  apply (simp add: request_reset_def dbQuery_def Let_def not_less sendOtpEmail_def)
  done

lemma request_reset_render_registered:
  assumes "registered st email" "db_up w" "0 \<le> random w" "random w < 1"
  shows "request_reset_render c w email st =
     (let st2 = st\<lparr>users1 := map (\<lambda>u. if user_email u = email
          then u\<lparr>reset_otp := Some (generateOtp w), reset_expires := Some (now w + 300000)\<rparr>
          else u) (users1 st)\<rparr>
      in if mail_up w
         then (Response 200 (JMessage ''OTP sent successfully''),
               st2\<lparr>outbox := outbox st @ [(email, generateOtp w)]\<rparr>)
         else (Response 500 (JError ''Email send failed''), st2))"
  using assms generateOtp_length [of w] registered_filter [of email st]
  by (simp add: request_reset_render_def dbQuery_def Let_def not_less sendOtpEmail_render_def)

lemma request_reset_unregistered:
  assumes "\<not> registered st email" "db_up w"
  shows "request_reset c w email st = (Response 404 (JError ''User not found''), st)"
    and "request_reset_render c w email st = (Response 404 (JError ''User not found''), st)"
  using assms registered_filter [of email st]
  by (simp_all add: request_reset_def request_reset_render_def dbQuery_def Let_def)

lemma users1_request_reset:
  assumes "registered st email" "db_up w" "0 \<le> random w" "random w < 1"
  shows "users1 (snd (request_reset c w email st)) = map (\<lambda>u. if user_email u = email
          then u\<lparr>reset_otp := Some (generateOtp w), reset_expires := Some (now w + 300000)\<rparr>
          else u) (users1 st)"
    and "users1 (snd (request_reset_render c w email st)) = map (\<lambda>u. if user_email u = email
          then u\<lparr>reset_otp := Some (generateOtp w), reset_expires := Some (now w + 300000)\<rparr>
          else u) (users1 st)"
  using assms
  by (simp_all add: request_reset_registered request_reset_render_registered Let_def)

lemma registered_map:
  assumes "\<And>u. user_email (f u) = user_email u"
  shows "registered (st\<lparr>users1 := map f (users1 st)\<rparr>) e = registered st e"
  by (simp add: registered_def assms comp_def)


lemma login_mismatch:
  assumes "db_up w"
    and "\<forall>u \<in> set (users1 st). user_email u = email \<longrightarrow>
           \<not> bcrypt_compare c password (user_password u)"
  shows "login c w email (Some password) st = (Response 401 (JError ''Invalid credentials''), st)"
proof (cases "filter (\<lambda>u. user_email u = email) (users1 st)")
  case Nil
  then show ?thesis using assms(1) by (simp add: login_def dbQuery_def)
next
  case (Cons u us)
  then have "u \<in> set (filter (\<lambda>u. user_email u = email) (users1 st))" by simp
  then have "\<not> bcrypt_compare c password (user_password u)" using assms(2) by simp
  then show ?thesis using assms(1) Cons by (simp add: login_def dbQuery_def)
qed



lemma demo_reset_state_eq: "demo_reset_state =
     \<lparr>users1 = [\<lparr>user_id = 1, user_email = ''a@x.com'', user_password = ''s1secret1'',
                  reset_otp = Some ''550000'', reset_expires = Some 1300000\<rparr>],
       users1_id_seq = 1, outbox = [(''a@x.com'', ''550000'')]\<rparr>"
  unfolding demo_reset_state_def
  by (subst request_reset_registered [OF demo_registered demo_world_simps(1-3)])
     (simp add: demo_world_simps generateOtp_demo demo_state_eq)

lemma verify_reset_pending_response:
  assumes "db_up w" "pending st email otp (now w)"
  shows "fst (verify_reset c w email otp newPassword st) \<noteq>
     Response 400 (JError ''Invalid or expired OTP'')"
  using assms pending_filter [of email otp "now w" st]
  by (simp add: verify_reset_def dbQuery_def Let_def split: prod.splits sum.splits)

lemma demo_token:
  "verifyToken demo_env w (Some ''Bearer k.i.a@x.com'') =
     Inr \<lparr>payload_id = 1, payload_email = ''a@x.com''\<rparr>"
  by (simp add: verifyToken_def demo_env_def demo_verify_def Let_def)

section \<open>Invariants\<close>

lemma reset_inv_map:
  "reset_inv (st\<lparr>users1 := map f (users1 st)\<rparr>) =
     (\<forall>u \<in> set (users1 st). reset_otp (f u) = None \<longrightarrow> reset_expires (f u) = None)"
  by (simp add: reset_inv_def)

lemma reset_paired_map:
  "reset_paired (st\<lparr>users1 := map f (users1 st)\<rparr>) =
     (\<forall>u \<in> set (users1 st). (reset_otp (f u) = None) = (reset_expires (f u) = None))"
  by (simp add: reset_paired_def)

lemma reset_inv_pool_query:
  assumes "reset_inv st"
  shows "reset_inv (snd (pool_query t q st))"
proof (cases q)
  case (INSERT_user e p)
  then show ?thesis using assms by (simp add: reset_inv_def Let_def)
next
  case (UPDATE_reset otp e)
  then show ?thesis using assms by (simp add: reset_inv_map) (simp add: reset_inv_def)
next
  case (UPDATE_password_clear_reset p e)
  then show ?thesis using assms by (simp add: reset_inv_map) (simp add: reset_inv_def)
next
  case (UPDATE_password_by_id p i)
  then show ?thesis using assms by (simp add: reset_inv_map) (simp add: reset_inv_def)
qed (use assms in simp_all)

lemma reset_paired_pool_query:
  assumes "reset_paired st"
  shows "reset_paired (snd (pool_query t q st))"
proof (cases q)
  case (INSERT_user e p)
  then show ?thesis using assms by (simp add: reset_paired_def Let_def)
next
  case (UPDATE_reset otp e)
  then show ?thesis using assms by (simp add: reset_paired_map) (simp add: reset_paired_def)
next
  case (UPDATE_password_clear_reset p e)
  then show ?thesis using assms by (simp add: reset_paired_map) (simp add: reset_paired_def)
next
  case (UPDATE_password_by_id p i)
  then show ?thesis using assms by (simp add: reset_paired_map) (simp add: reset_paired_def)
qed (use assms in simp_all)


text \<open>
  Every handler reaches the table through \<open>dbQuery\<close> only, so a property of the state
  that each statement preserves and that does not depend on the outbox is preserved by
  every handler.
\<close>

lemma dbQuery_preserves:
  assumes "\<And>t q st. P st \<Longrightarrow> P (snd (pool_query t q st))"
    and "dbQuery w q st = (r, st')" and "P st"
  shows "P st'"
proof (cases "db_up w")
  case True
  with assms(2) have "st' = snd (pool_query (now w) q st)" by (simp add: dbQuery_def)
  with assms(1,3) show ?thesis by simp
next
  case False
  with assms(2,3) show ?thesis by (simp add: dbQuery_def)
qed

lemma sendOtpEmail_preserves:
  assumes "\<And>st m. P (st\<lparr>outbox := m\<rparr>) = P st" and "P st"
  shows "P (snd (sendOtpEmail w e otp st))"
  using assms by (simp add: sendOtpEmail_def)

lemma signup_preserves:
  assumes step: "\<And>t q st. P st \<Longrightarrow> P (snd (pool_query t q st))" and "P st"
  shows "P (snd (signup c w email password st))"
  using assms(2)
  by (auto simp: signup_def Let_def split: prod.splits sum.splits
      intro: dbQuery_preserves [of P, OF step])

lemma login_preserves:
  assumes step: "\<And>t q st. P st \<Longrightarrow> P (snd (pool_query t q st))" and "P st"
  shows "P (snd (login c w email password st))"
  using assms(2)
  by (auto simp: login_def Let_def split: prod.splits sum.splits list.splits option.splits
      intro: dbQuery_preserves [of P, OF step])

lemma request_reset_preserves:
  assumes step: "\<And>t q st. P st \<Longrightarrow> P (snd (pool_query t q st))"
    and mail: "\<And>st m. P (st\<lparr>outbox := m\<rparr>) = P st" and "P st"
  shows "P (snd (request_reset c w email st))"
  using assms(3)
  by (auto simp: request_reset_def Let_def sendOtpEmail_def mail
      split: prod.splits sum.splits bool.splits if_splits
      intro: dbQuery_preserves [of P, OF step])

lemma verify_reset_preserves:
  assumes step: "\<And>t q st. P st \<Longrightarrow> P (snd (pool_query t q st))" and "P st"
  shows "P (snd (verify_reset c w email otp newPassword st))"
  using assms(2)
  by (auto simp: verify_reset_def Let_def split: prod.splits sum.splits
      intro: dbQuery_preserves [of P, OF step])

lemma change_password_preserves:
  assumes step: "\<And>t q st. P st \<Longrightarrow> P (snd (pool_query t q st))" and "P st"
  shows "P (snd (change_password c w header oldPassword newPassword st))"
  using assms(2)
  by (auto simp: change_password_def Let_def split: prod.splits sum.splits list.splits
      intro: dbQuery_preserves [of P, OF step])

lemma me_preserves:
  assumes step: "\<And>t q st. P st \<Longrightarrow> P (snd (pool_query t q st))" and "P st"
  shows "P (snd (me c w header st))"
  using assms(2)
  by (auto simp: me_def Let_def split: prod.splits sum.splits list.splits
      intro: dbQuery_preserves [of P, OF step])

lemma handle_preserves:
  assumes step: "\<And>t q st. P st \<Longrightarrow> P (snd (pool_query t q st))"
    and mail: "\<And>st m. P (st\<lparr>outbox := m\<rparr>) = P st" and "P st"
  shows "P (snd (handle c w r st))"
proof (cases r)
  case (Signup email password)
  then show ?thesis using signup_preserves [of P, OF step assms(3)] by simp
next
  case (Login email password)
  then show ?thesis using login_preserves [of P, OF step assms(3)] by simp
next
  case (RequestReset email)
  then show ?thesis using request_reset_preserves [of P, OF step mail assms(3)] by simp
next
  case (VerifyReset email otp newPassword)
  then show ?thesis using verify_reset_preserves [of P, OF step assms(3)] by simp
next
  case (ChangePassword header oldPassword newPassword)
  then show ?thesis using change_password_preserves [of P, OF step assms(3)] by simp
next
  case (GetProfile header)
  then show ?thesis using me_preserves [of P, OF step assms(3)] by simp
qed

lemma run_preserves:
  assumes step: "\<And>t q st. P st \<Longrightarrow> P (snd (pool_query t q st))"
    and mail: "\<And>st m. P (st\<lparr>outbox := m\<rparr>) = P st" and "P st"
  shows "P (run c rs st)"
  using assms(3)
proof (induction rs arbitrary: st)
  case Nil
  then show ?case by simp
next
  case (Cons a rs)
  obtain w r where a: "a = (w, r)" by (cases a)
  have "P (snd (handle c w r st))"
    using step mail Cons.prems by (rule handle_preserves)
  then show ?case unfolding a by (simp add: Cons.IH)
qed

lemma reset_inv_outbox: "reset_inv (st\<lparr>outbox := m\<rparr>) = reset_inv st"
  by (simp add: reset_inv_def)

lemma reset_paired_outbox: "reset_paired (st\<lparr>outbox := m\<rparr>) = reset_paired st"
  by (simp add: reset_paired_def)

lemma signup_created_row:
  assumes "fst (signup c w email password st) = Response 200 (JMessage ''Signup successful'')"
  shows "\<exists>u. users1 (snd (signup c w email password st)) = users1 st @ [u] \<and>
           user_email u = email \<and> reset_otp u = None \<and> reset_expires u = None"
  using assms
  by (auto simp: signup_def dbQuery_def Let_def split: prod.splits sum.splits if_splits)

lemma store_inv_map:
  assumes "\<And>u. user_id (f u) = user_id u" "\<And>u. user_email (f u) = user_email u"
  shows "store_inv (st\<lparr>users1 := map f (users1 st)\<rparr>) = store_inv st"
  by (simp add: store_inv_def comp_def assms)

lemma store_inv_pool_query:
  assumes "store_inv st"
  shows "store_inv (snd (pool_query t q st))"
proof (cases q)
  case (INSERT_user e p)
  have "Suc (users1_id_seq st) \<notin> user_id ` set (users1 st)"
    using assms by (auto simp: store_inv_def)
  then show ?thesis using assms INSERT_user
    by (auto simp: store_inv_def Let_def le_Suc_eq)
next
  case (UPDATE_reset otp e)
  then show ?thesis using assms by (simp add: store_inv_map)
next
  case (UPDATE_password_clear_reset p e)
  then show ?thesis using assms by (simp add: store_inv_map)
next
  case (UPDATE_password_by_id p i)
  then show ?thesis using assms by (simp add: store_inv_map)
qed (use assms in simp_all)

lemma store_inv_outbox: "store_inv (st\<lparr>outbox := m\<rparr>) = store_inv st"
  by (simp add: store_inv_def)

lemma store_inv_handle: "store_inv st \<Longrightarrow> store_inv (snd (handle c w r st))"
  using store_inv_pool_query store_inv_outbox by (rule handle_preserves)

lemma store_inv_run: "store_inv (run c rs empty_state)"
  using store_inv_pool_query store_inv_outbox empty_store_inv by (rule run_preserves)

section \<open>Facts about change-password\<close>

lemma filter_unique_key:
  assumes "distinct (map f xs)" "x \<in> set xs"
  shows "filter (\<lambda>y. f y = f x) xs = [x]"
  using assms
proof (induction xs)
  case Nil
  then show ?case by simp
next
  case (Cons a xs)
  show ?case
  proof (cases "a = x")
    case True
    have "f x \<notin> f ` set xs" using Cons.prems(1) True by simp
    then have "\<forall>y \<in> set xs. f y \<noteq> f x" by (metis imageI)
    then have "filter (\<lambda>y. f y = f x) xs = []" by (simp add: filter_empty_conv)
    with True show ?thesis by simp
  next
    case False
    then have "x \<in> set xs" using Cons.prems(2) by simp
    moreover have "f a \<notin> f ` set xs" using Cons.prems(1) by simp
    then have "f a \<noteq> f x" using \<open>x \<in> set xs\<close> by (metis imageI)
    ultimately show ?thesis using Cons by simp
  qed
qed

lemma change_password_ok:
  assumes "bcrypt_contract c" "store_inv st" "db_up w" "u \<in> set (users1 st)"
    "verifyToken c w header = Inr req_user" "payload_id req_user = user_id u"
    "bcrypt_compare c oldPassword (user_password u)"
  shows "change_password c w header oldPassword newPassword st =
     (Response 200 (JMessage ''Password changed''),
      st\<lparr>users1 := map (\<lambda>v. if user_id v = user_id u
          then v\<lparr>user_password := bcrypt_hash c newPassword SALT_ROUNDS (salt w)\<rparr>
          else v) (users1 st)\<rparr>)"
proof -
  have f: "filter (\<lambda>v. user_id v = user_id u) (users1 st) = [u]"
    using assms(2,4) by (intro filter_unique_key) (simp_all add: store_inv_def)
  have len: "length (bcrypt_hash c newPassword SALT_ROUNDS (salt w)) \<le> 255"
    using assms(1) by (simp add: bcrypt_contract_def)
  show ?thesis
    using assms(3,5,6,7) f len
    by (simp add: change_password_def dbQuery_def Let_def not_less)
qed

lemma change_password_mismatch:
  assumes "store_inv st" "db_up w" "u \<in> set (users1 st)"
    "verifyToken c w header = Inr req_user" "payload_id req_user = user_id u"
    "\<not> bcrypt_compare c oldPassword (user_password u)"
  shows "change_password c w header oldPassword newPassword st =
     (Response 400 (JError ''Old password incorrect''), st)"
proof -
  have f: "filter (\<lambda>v. user_id v = user_id u) (users1 st) = [u]"
    using assms(1,3) by (intro filter_unique_key) (simp_all add: store_inv_def)
  show ?thesis
    using assms(2,4,5,6) f
    by (simp add: change_password_def dbQuery_def)
qed

lemma filter_email_after_change:
  assumes "store_inv st" "u \<in> set (users1 st)"
  shows "filter (\<lambda>v. user_email v = user_email u)
           (map (\<lambda>v. if user_id v = user_id u then v\<lparr>user_password := h\<rparr> else v) (users1 st)) =
         [u\<lparr>user_password := h\<rparr>]"
proof -
  let ?g = "\<lambda>v. if user_id v = user_id u then v\<lparr>user_password := h\<rparr> else v"
  have e: "(\<lambda>v. user_email v = user_email u) \<circ> ?g = (\<lambda>v. user_email v = user_email u)"
    by (rule ext) simp
  have "filter (\<lambda>v. user_email v = user_email u) (users1 st) = [u]"
    using assms by (intro filter_unique_key) (simp_all add: store_inv_def)
  then show ?thesis
    unfolding filter_map e by simp
qed

lemma demo_store_inv: "store_inv demo_state"
  by (simp add: store_inv_def demo_state_eq)

section \<open>Facts about signup and its interleavings, and about the legacy server\<close>

text \<open>Run alone, the two steps of a signup are the handler.\<close>

lemma signup_race_alone:
  "signup_race c (w, email, password) r2 [True, True] (At_select, pc2, st) =
     (Finished (fst (signup c w email password st)), pc2, snd (signup c w email password st))"
  by (cases r2)
     (auto simp: signup_step_def signup_def Let_def split: prod.splits sum.splits)

lemma signup_registered:
  assumes "isEmail c email" "6 \<le> length password" "registered st email" "db_up w"
  shows "signup c w email password st = (Response 400 (JError ''User already exists''), st)"
proof -
  have "filter (\<lambda>u. user_email u = email) (users1 st) \<noteq> []"
    using assms(3) registered_filter [of email st] by simp
  then show ?thesis
    using assms(1,2,4) by (simp add: signup_def validationResult_def dbQuery_def)
qed

lemma signup_legacy_registered:
  assumes "bcrypt_contract c" "isEmail_contract c"
    "isEmail c email" "6 \<le> length password" "registered st email" "db_up w"
  shows "signup_legacy c w email password st =
     (Response 500 (JError ''Signup failed''), st\<lparr>users1_id_seq := Suc (users1_id_seq st)\<rparr>)"
proof -
  have c: "length email \<le> 255"
    using assms(2,3) by (auto simp: isEmail_contract_def dest!: spec[of _ email])
  have d: "length (bcrypt_hash c password SALT_ROUNDS (salt w)) \<le> 255"
    using assms(1) by (simp add: bcrypt_contract_def)
  have e: "email \<in> user_email ` set (users1 st)"
    using assms(5) by (simp add: registered_def)
  show ?thesis
    using assms(3,4,6) c d e
    by (simp add: signup_legacy_def validationResult_def dbQuery_def Let_def not_less)
qed

lemma request_reset_legacy_unregistered:
  assumes "\<not> registered st email" "db_up w" "0 \<le> random w" "random w < 1"
  shows "request_reset_legacy c w email st =
     (if mail_up w
      then (Response 200 (JMessage ''OTP sent to email''),
            st\<lparr>outbox := outbox st @ [(email, generateOtp w)]\<rparr>)
      else (Response 500 (JError ''Could not send OTP''), st))"
proof -
  have "map (\<lambda>u. if user_email u = email
          then u\<lparr>reset_otp := Some (generateOtp w), reset_expires := Some (now w + 5 * 60 * 1000)\<rparr>
          else u) (users1 st) = users1 st"
    using assms(1) by (intro map_idI) (auto simp: registered_def)
  then show ?thesis
    using assms(2) generateOtp_length [OF assms(3,4)]
    by (simp add: request_reset_legacy_def dbQuery_def Let_def not_less sendOtpEmail_legacy_def)
qed

lemma registered_pool_query:
  assumes "registered st x"
  shows "registered (snd (pool_query t q st)) x"
proof (cases q)
  case (INSERT_user e p)
  then show ?thesis using assms by (auto simp: registered_def Let_def)
next
  case (UPDATE_reset otp e)
  then show ?thesis using assms by (simp add: registered_map)
next
  case (UPDATE_password_clear_reset p e)
  then show ?thesis using assms by (simp add: registered_map)
next
  case (UPDATE_password_by_id p i)
  then show ?thesis using assms by (simp add: registered_map)
qed (use assms in simp_all)

lemma signup_step_preserves:
  assumes step: "\<And>t q st. P st \<Longrightarrow> P (snd (pool_query t q st))" and "P st"
  shows "P (snd (signup_step c w email password pc st))"
  using assms(2)
  by (auto simp: signup_step_def Let_def split: signup_pc.splits prod.splits sum.splits
      intro: dbQuery_preserves [of P, OF step])

lemma insert_registers:
  assumes "store_inv st" "length e \<le> 255" "length p \<le> 255"
  shows "registered (snd (pool_query t (INSERT_user e p) st)) e"
proof -
  have "Suc (users1_id_seq st) \<notin> user_id ` set (users1 st)"
    using assms(1) by (auto simp: store_inv_def)
  then show ?thesis
    using assms(2,3) by (auto simp: registered_def Let_def not_less)
qed

lemma signup_step_finishes_registered:
  assumes "bcrypt_contract c" "isEmail_contract c" "isEmail c email" "6 \<le> length password"
    "db_up w" "store_inv st"
    and "signup_step c w email password pc st = (Finished res, st')"
    and "pc = At_select \<or> pc = At_insert"
  shows "registered st' email"
proof -
  have le: "length email \<le> 255"
    using assms(2,3) by (auto simp: isEmail_contract_def dest!: spec[of _ email])
  have lh: "length (bcrypt_hash c password SALT_ROUNDS (salt w)) \<le> 255"
    using assms(1) by (simp add: bcrypt_contract_def)
  from assms(8) show ?thesis
  proof
    assume pc: "pc = At_select"
    have v: "validationResult c email password = []"
      using assms(3,4) by (simp add: validationResult_def)
    from assms(7) have "filter (\<lambda>u. user_email u = email) (users1 st) \<noteq> []" and "st' = st"
      using assms(5) unfolding pc
      by (auto simp: signup_step_def v dbQuery_def split: if_splits)
    then show ?thesis using registered_filter [of email st] by simp
  next
    assume pc: "pc = At_insert"
    from assms(7) have "st' = snd (pool_query (now w)
        (INSERT_user email (bcrypt_hash c password SALT_ROUNDS (salt w))) st)"
      using assms(5) unfolding pc
      by (auto simp: signup_step_def dbQuery_def Let_def split: prod.splits sum.splits)
    then show ?thesis using insert_registers [OF assms(6) le lh] by simp
  qed
qed

lemma signup_step_Finished: "signup_step c w email password (Finished res) st = (Finished res, st)"
  by (simp add: signup_step_def)

lemma signup_pc_cases: "(\<exists>res. pc = Finished res) \<or> pc = At_select \<or> pc = At_insert"
  by (cases pc) simp_all

lemma signup_step_keeps_promise:
  assumes "bcrypt_contract c" "isEmail_contract c" "isEmail c email" "6 \<le> length password"
    "db_up w" "store_inv st"
    and "\<forall>res. pc = Finished res \<longrightarrow> registered st email"
    and "signup_step c w email password pc st = (pc', st')"
  shows "\<forall>res. pc' = Finished res \<longrightarrow> registered st' email"
proof (intro allI impI)
  fix res assume f: "pc' = Finished res"
  from signup_pc_cases [of pc] show "registered st' email"
  proof
    assume "\<exists>res. pc = Finished res"
    then obtain r where "pc = Finished r" ..
    with assms(7,8) show ?thesis by (simp add: signup_step_Finished)
  next
    assume "pc = At_select \<or> pc = At_insert"
    with assms(1-6) assms(8) [unfolded f] show ?thesis
      by (rule signup_step_finishes_registered)
  qed
qed

lemma signup_race_invariant:
  assumes "bcrypt_contract c" "isEmail_contract c"
    and "isEmail c email" "6 \<le> length password1" "6 \<le> length password2"
    and "db_up w1" "db_up w2"
    and "store_inv st"
    and "\<forall>res. pc1 = Finished res \<longrightarrow> registered st email"
    and "\<forall>res. pc2 = Finished res \<longrightarrow> registered st email"
    and "signup_race c (w1, email, password1) (w2, email, password2) sched (pc1, pc2, st) =
           (pc1', pc2', st')"
  shows "store_inv st' \<and> (\<forall>res. pc1' = Finished res \<longrightarrow> registered st' email) \<and>
         (\<forall>res. pc2' = Finished res \<longrightarrow> registered st' email)"
  using assms(8-11)
proof (induction sched arbitrary: pc1 pc2 st)
  case Nil
  then show ?case by simp
next
  case (Cons first sched)
  show ?case
  proof (cases first)
    case True
    obtain pc st1 where s: "signup_step c w1 email password1 pc1 st = (pc, st1)"
      by (cases "signup_step c w1 email password1 pc1 st")
    have i: "store_inv st1"
      using signup_step_preserves [of store_inv, OF store_inv_pool_query Cons.prems(1),
          of c w1 email password1 pc1] s by simp
    have a: "\<forall>res. pc = Finished res \<longrightarrow> registered st1 email"
      using assms(1,2,3,4,6) Cons.prems(1,2) s by (rule signup_step_keeps_promise)
    have "registered st email \<longrightarrow> registered st1 email"
      using signup_step_preserves [of "\<lambda>st. registered st email", OF registered_pool_query,
          of st c w1 email password1 pc1] s by simp
    with Cons.prems(3) have b: "\<forall>res. pc2 = Finished res \<longrightarrow> registered st1 email" by blast
    from Cons.prems(4) True s
    have "signup_race c (w1, email, password1) (w2, email, password2) sched (pc, pc2, st1) =
           (pc1', pc2', st')" by simp
    with i a b show ?thesis by (rule Cons.IH)
  next
    case False
    obtain pc st1 where s: "signup_step c w2 email password2 pc2 st = (pc, st1)"
      by (cases "signup_step c w2 email password2 pc2 st")
    have i: "store_inv st1"
      using signup_step_preserves [of store_inv, OF store_inv_pool_query Cons.prems(1),
          of c w2 email password2 pc2] s by simp
    have a: "\<forall>res. pc = Finished res \<longrightarrow> registered st1 email"
      using assms(1,2,3,5,7) Cons.prems(1,3) s by (rule signup_step_keeps_promise)
    have "registered st email \<longrightarrow> registered st1 email"
      using signup_step_preserves [of "\<lambda>st. registered st email", OF registered_pool_query,
          of st c w2 email password2 pc2] s by simp
    with Cons.prems(2) have b: "\<forall>res. pc1 = Finished res \<longrightarrow> registered st1 email" by blast
    from Cons.prems(4) False s
    have "signup_race c (w1, email, password1) (w2, email, password2) sched (pc1, pc, st1) =
           (pc1', pc2', st')" by simp
    with i b a show ?thesis by (rule Cons.IH)
  qed
qed

lemma one_row_per_email:
  assumes "store_inv st" "registered st email"
  shows "length (filter (\<lambda>u. user_email u = email) (users1 st)) = 1"
proof -
  from assms(2) obtain u where u: "u \<in> set (users1 st)" "user_email u = email"
    by (auto simp: registered_def)
  have "filter (\<lambda>v. user_email v = user_email u) (users1 st) = [u]"
    using assms(1) u(1) by (intro filter_unique_key) (simp_all add: store_inv_def)
  then show ?thesis using u(2) by simp
qed

text \<open>
  However two signups for one email interleave, once both have answered exactly one
  account has that email.
\<close>

lemma concurrent_signups_one_account:
  assumes "bcrypt_contract c" "isEmail_contract c"
    and "isEmail c email" "6 \<le> length password1" "6 \<le> length password2"
    and "db_up w1" "db_up w2" "store_inv st"
    and "signup_race c (w1, email, password1) (w2, email, password2) sched
           (At_select, At_select, st) = (Finished res1, Finished res2, st')"
  shows "length (filter (\<lambda>u. user_email u = email) (users1 st')) = 1"
proof -
  have "store_inv st' \<and> (\<forall>res. Finished res1 = Finished res \<longrightarrow> registered st' email) \<and>
         (\<forall>res. Finished res2 = Finished res \<longrightarrow> registered st' email)"
    using assms(1-8) _ _ assms(9) by (rule signup_race_invariant) simp_all
  then have "store_inv st'" "registered st' email" by simp_all
  then show ?thesis by (rule one_row_per_email)
qed

lemma signup_registers:
  assumes "bcrypt_contract c" "isEmail_contract c" "store_inv st"
    "isEmail c email" "6 \<le> length password" "db_up w"
  shows "registered (snd (signup c w email password st)) email"
    and "store_inv (snd (signup c w email password st))"
proof -
  show "store_inv (snd (signup c w email password st))"
    using store_inv_pool_query assms(3) by (rule signup_preserves)
  show "registered (snd (signup c w email password st)) email"
  proof (cases "registered st email")
    case True
    then show ?thesis using signup_registered [OF assms(4,5) True assms(6)] by simp
  next
    case False
    then show ?thesis
      using signup_ok [OF assms(1,2,3,4,5) False assms(6)] by (simp add: registered_def)
  qed
qed

lemma insert_rejected:
  assumes "registered st email"
  shows "(\<exists>err. fst (pool_query t (INSERT_user email hashed) st) = Inl err) \<and>
         users1 (snd (pool_query t (INSERT_user email hashed) st)) = users1 st"
  using assms by (simp add: registered_def Let_def)

text \<open>
  Two signups for a new email whose lookups both run before either insert: the unique
  index rejects the second insert, which its handler's \<^verbatim>\<open>catch\<close> answers with 500.
\<close>

lemma signup_race_lookups_first:
  "signup_race demo_env (demo_world, ''a@x.com'', ''secret1'') (later_world, ''a@x.com'', ''secret9'')
     [True, False, True, False] (At_select, At_select, empty_state) =
     (Finished (Response 200 (JMessage ''Signup successful'')),
      Finished (Response 500 (JError ''Signup failed'')),
      \<lparr>users1 = [\<lparr>user_id = 1, user_email = ''a@x.com'', user_password = ''s1secret1'',
                   reset_otp = None, reset_expires = None\<rparr>],
        users1_id_seq = 2, outbox = []\<rparr>)"
  by (simp add: signup_step_def validationResult_def dbQuery_def demo_env_def
      demo_world_simps later_world_simps empty_state_def demo_hash_def)

lemma steps_left_0: "(steps_left pc = 0) = (\<exists>res. pc = Finished res)"
  by (cases pc) simp_all

lemma signup_step_progress:
  "steps_left (fst (signup_step c w email password pc st)) \<le> steps_left pc - 1"
  by (cases pc)
     (auto simp: signup_step_def Let_def split: prod.splits sum.splits)

lemma signup_race_progress:
  assumes "signup_race c (w1, email1, password1) (w2, email2, password2) sched (pc1, pc2, st) =
     (pc1', pc2', st')"
  shows "steps_left pc1' \<le> steps_left pc1 - length (filter (\<lambda>b. b) sched) \<and>
         steps_left pc2' \<le> steps_left pc2 - length (filter Not sched)"
  using assms
proof (induction sched arbitrary: pc1 pc2 st)
  case Nil
  then show ?case by simp
next
  case (Cons first sched)
  show ?case
  proof (cases first)
    case True
    obtain pc st1 where s: "signup_step c w1 email1 password1 pc1 st = (pc, st1)"
      by (cases "signup_step c w1 email1 password1 pc1 st")
    have p: "steps_left pc \<le> steps_left pc1 - 1"
      using signup_step_progress [of c w1 email1 password1 pc1 st] s by simp
    from Cons.prems True s
    have "signup_race c (w1, email1, password1) (w2, email2, password2) sched (pc, pc2, st1) =
        (pc1', pc2', st')" by simp
    from Cons.IH [OF this] p True show ?thesis by (simp, arith)
  next
    case False
    obtain pc st1 where s: "signup_step c w2 email2 password2 pc2 st = (pc, st1)"
      by (cases "signup_step c w2 email2 password2 pc2 st")
    have p: "steps_left pc \<le> steps_left pc2 - 1"
      using signup_step_progress [of c w2 email2 password2 pc2 st] s by simp
    from Cons.prems False s
    have "signup_race c (w1, email1, password1) (w2, email2, password2) sched (pc1, pc, st1) =
        (pc1', pc2', st')" by simp
    from Cons.IH [OF this] p False show ?thesis by (simp, arith)
  qed
qed

text \<open>A schedule that gives each of the two signups two turns lets both answer.\<close>

lemma signup_race_finishes:
  assumes "2 \<le> length (filter (\<lambda>b. b) sched)" "2 \<le> length (filter Not sched)"
  shows "\<exists>res1 res2 st'.
     signup_race c (w1, email1, password1) (w2, email2, password2) sched
       (At_select, At_select, st) = (Finished res1, Finished res2, st')"
proof -
  obtain pc1' pc2' st' where r:
    "signup_race c (w1, email1, password1) (w2, email2, password2) sched
       (At_select, At_select, st) = (pc1', pc2', st')"
    by (cases "signup_race c (w1, email1, password1) (w2, email2, password2) sched
       (At_select, At_select, st)")
  from signup_race_progress [OF r] assms
  have "steps_left pc1' = 0" "steps_left pc2' = 0" by simp_all
  then obtain res1 res2 where "pc1' = Finished res1" "pc2' = Finished res2"
    unfolding steps_left_0 by blast
  with r show ?thesis by blast
qed

section \<open>Signup, then login\<close>

text \<open>
  Claim C1.  For every email that \<^verbatim>\<open>isEmail\<close> accepts and every password of at least
  six characters, in a store where the email is not registered, signup answers 200 and
  adds one account; a login with the same email and password then answers 200 with a
  token, and the token library's verify, given that token and the secret before the hour
  has passed, returns the id and the email of the created account.
\<close>

theorem signup_then_login:
  assumes "bcrypt_contract c" and "jwt_contract c" and "isEmail_contract c"
    and "store_inv st" and "db_up w1" and "db_up w2"
    and "isEmail c email" and "6 \<le> length password" and "\<not> registered st email"
  shows "\<exists>u token.
      signup c w1 email password st =
        (Response 200 (JMessage ''Signup successful''),
         st\<lparr>users1_id_seq := Suc (users1_id_seq st), users1 := users1 st @ [u]\<rparr>) \<and>
      user_email u = email \<and>
      login c w2 email (Some password) (snd (signup c w1 email password st)) =
        (Response 200 (JTokenUser token (user_id u) (user_email u)),
         snd (signup c w1 email password st)) \<and>
      (\<forall>t. t div 1000 < now w2 div 1000 + 3600 \<longrightarrow>
         jwt_verify c token (JWT_SECRET c) t =
           Some \<lparr>payload_id = user_id u, payload_email = user_email u\<rparr>)"
proof -
  let ?u = "\<lparr>user_id = Suc (users1_id_seq st), user_email = email,
            user_password = bcrypt_hash c password SALT_ROUNDS (salt w1),
            reset_otp = None, reset_expires = None\<rparr>"
  let ?st1 = "st\<lparr>users1_id_seq := Suc (users1_id_seq st), users1 := users1 st @ [?u]\<rparr>"
  let ?token = "jwt_sign c \<lparr>payload_id = user_id ?u, payload_email = user_email ?u\<rparr>
           (JWT_SECRET c) 3600 (now w2)"
  have s: "signup c w1 email password st = (Response 200 (JMessage ''Signup successful''), ?st1)"
    using assms by (intro signup_ok)
  have "filter (\<lambda>u. user_email u = email) (users1 st) = []"
    using assms(9) by (auto simp: filter_empty_conv registered_def)
  then have f: "filter (\<lambda>u. user_email u = email) (users1 ?st1) = ?u # []" by simp
  have cmp: "bcrypt_compare c password (user_password ?u)"
    using assms(1) by (simp add: bcrypt_contract_def)
  have l: "login c w2 email (Some password) ?st1 =
      (Response 200 (JTokenUser ?token (user_id ?u) (user_email ?u)), ?st1)"
    using login_ok [OF f cmp \<open>db_up w2\<close>] .
  have v: "\<forall>t. t div 1000 < now w2 div 1000 + 3600 \<longrightarrow>
         jwt_verify c ?token (JWT_SECRET c) t =
           Some \<lparr>payload_id = user_id ?u, payload_email = user_email ?u\<rparr>"
    using assms(2) unfolding jwt_contract_def by blast
  from s l v show ?thesis
    by (intro exI [of _ ?u] exI [of _ ?token]) simp
qed

theorem signup_then_login_witness:
  "\<exists>u token.
      signup demo_env demo_world ''a@x.com'' ''secret1'' empty_state =
        (Response 200 (JMessage ''Signup successful''),
         empty_state\<lparr>users1_id_seq := 1, users1 := [u]\<rparr>) \<and>
      user_email u = ''a@x.com'' \<and>
      login demo_env demo_world ''a@x.com'' (Some ''secret1'') demo_state =
        (Response 200 (JTokenUser token (user_id u) ''a@x.com''), demo_state) \<and>
      jwt_verify demo_env token (JWT_SECRET demo_env) (now demo_world) =
           Some \<lparr>payload_id = user_id u, payload_email = ''a@x.com''\<rparr>"
proof -
  have r: "\<not> registered empty_state ''a@x.com''"
    by (simp add: registered_def empty_state_def)
  have v: "isEmail demo_env ''a@x.com''" "6 \<le> length ''secret1''" "db_up demo_world"
    by (simp_all add: demo_env_def demo_world_def)
  from signup_then_login [OF demo_bcrypt demo_jwt demo_isEmail empty_store_inv v(3) v(3) v(1) v(2) r]
  obtain u token where
    "signup demo_env demo_world ''a@x.com'' ''secret1'' empty_state =
        (Response 200 (JMessage ''Signup successful''),
         empty_state\<lparr>users1_id_seq := Suc (users1_id_seq empty_state), users1 := users1 empty_state @ [u]\<rparr>)"
    "user_email u = ''a@x.com''"
    "login demo_env demo_world ''a@x.com'' (Some ''secret1'') (snd (signup demo_env demo_world ''a@x.com'' ''secret1'' empty_state)) =
        (Response 200 (JTokenUser token (user_id u) (user_email u)),
         snd (signup demo_env demo_world ''a@x.com'' ''secret1'' empty_state))"
    "\<forall>t. t div 1000 < now demo_world div 1000 + 3600 \<longrightarrow>
         jwt_verify demo_env token (JWT_SECRET demo_env) t =
           Some \<lparr>payload_id = user_id u, payload_email = user_email u\<rparr>"
    by blast
  then show ?thesis
    apply (intro exI [of _ u] exI [of _ token])
    apply (simp add: demo_state_def empty_state_def)
    done
qed

section \<open>A reset code is accepted once\<close>

text \<open>
  Claim C2.  A reset request for a registered email leaves its code pending until five
  minutes later.  For every account with a pending, unexpired code, verify-reset with
  that code answers 200 and one \<^verbatim>\<open>UPDATE\<close> stores the new digest and sets
  \<^verbatim>\<open>reset_otp\<close> and \<^verbatim>\<open>reset_expires\<close> to \<^verbatim>\<open>NULL\<close>; a second verify-reset with the
  same code then answers 400 \<^verbatim>\<open>Invalid or expired OTP\<close> and changes nothing.
\<close>

theorem verify_reset_exactly_once:
  assumes "bcrypt_contract c" and "db_up w2" and "db_up w3"
  shows "(registered st0 email \<and> db_up w1 \<and> 0 \<le> random w1 \<and> random w1 < 1 \<and>
            now w2 < now w1 + 300000 \<longrightarrow>
            pending (snd (request_reset c w1 email st0)) email (generateOtp w1) (now w2) \<and>
            pending (snd (request_reset_render c w1 email st0)) email (generateOtp w1) (now w2)) \<and>
         (pending st email otp (now w2) \<longrightarrow>
            verify_reset c w2 email otp newPassword st =
              (Response 200 (JMessage ''Password reset successful''),
               st\<lparr>users1 := map (\<lambda>u. if user_email u = email
                  then u\<lparr>user_password := bcrypt_hash c newPassword SALT_ROUNDS (salt w2),
                         reset_otp := None, reset_expires := None\<rparr>
                  else u) (users1 st)\<rparr>) \<and>
            verify_reset c w3 email otp newPassword'
                (snd (verify_reset c w2 email otp newPassword st)) =
              (Response 400 (JError ''Invalid or expired OTP''),
               snd (verify_reset c w2 email otp newPassword st)))"
proof (intro conjI impI)
  assume a: "registered st0 email \<and> db_up w1 \<and> 0 \<le> random w1 \<and> random w1 < 1 \<and>
            now w2 < now w1 + 300000"
  then have r: "registered st0 email" "db_up w1" "0 \<le> random w1" "random w1 < 1"
    and t: "now w2 < now w1 + 300000" by simp_all
  let ?st1 = "st0\<lparr>users1 := map (\<lambda>u. if user_email u = email
          then u\<lparr>reset_otp := Some (generateOtp w1), reset_expires := Some (now w1 + 300000)\<rparr>
          else u) (users1 st0)\<rparr>"
  have p: "pending ?st1 email (generateOtp w1) (now w2)"
    using r(1) t by (rule pending_issued)
  have "users1 (snd (request_reset c w1 email st0)) = users1 ?st1"
    using users1_request_reset(1) [OF r] by simp
  with p show "pending (snd (request_reset c w1 email st0)) email (generateOtp w1) (now w2)"
    by (simp add: pending_def)
  have "users1 (snd (request_reset_render c w1 email st0)) = users1 ?st1"
    using users1_request_reset(2) [OF r] by simp
  with p show "pending (snd (request_reset_render c w1 email st0)) email (generateOtp w1) (now w2)"
    by (simp add: pending_def)
next
  assume p: "pending st email otp (now w2)"
  show first: "verify_reset c w2 email otp newPassword st =
              (Response 200 (JMessage ''Password reset successful''),
               st\<lparr>users1 := map (\<lambda>u. if user_email u = email
                  then u\<lparr>user_password := bcrypt_hash c newPassword SALT_ROUNDS (salt w2),
                         reset_otp := None, reset_expires := None\<rparr>
                  else u) (users1 st)\<rparr>)"
    using assms(1,2) p by (rule verify_reset_ok)
  show "verify_reset c w3 email otp newPassword'
                (snd (verify_reset c w2 email otp newPassword st)) =
              (Response 400 (JError ''Invalid or expired OTP''),
               snd (verify_reset c w2 email otp newPassword st))"
    unfolding first snd_conv
    using assms(3) not_pending_cleared by (rule verify_reset_fail)
qed

theorem verify_reset_exactly_once_witness:
  "demo_reset_state = snd (request_reset demo_env demo_world ''a@x.com'' demo_state) \<and>
   pending demo_reset_state ''a@x.com'' ''550000'' 1200000 \<and>
   verify_reset demo_env (demo_world\<lparr>now := 1200000\<rparr>) ''a@x.com'' ''550000'' ''secret2''
     demo_reset_state =
     (Response 200 (JMessage ''Password reset successful''),
      \<lparr>users1 = [\<lparr>user_id = 1, user_email = ''a@x.com'', user_password = ''s1secret2'',
                   reset_otp = None, reset_expires = None\<rparr>],
        users1_id_seq = 1, outbox = [(''a@x.com'', ''550000'')]\<rparr>) \<and>
   verify_reset demo_env (demo_world\<lparr>now := 1200001\<rparr>) ''a@x.com'' ''550000'' ''secret3''
     \<lparr>users1 = [\<lparr>user_id = 1, user_email = ''a@x.com'', user_password = ''s1secret2'',
                   reset_otp = None, reset_expires = None\<rparr>],
        users1_id_seq = 1, outbox = [(''a@x.com'', ''550000'')]\<rparr> =
     (Response 400 (JError ''Invalid or expired OTP''),
      \<lparr>users1 = [\<lparr>user_id = 1, user_email = ''a@x.com'', user_password = ''s1secret2'',
                   reset_otp = None, reset_expires = None\<rparr>],
        users1_id_seq = 1, outbox = [(''a@x.com'', ''550000'')]\<rparr>)"
proof -
  let ?w2 = "demo_world\<lparr>now := 1200000\<rparr>"
  let ?w3 = "demo_world\<lparr>now := 1200001\<rparr>"
  have up: "db_up ?w2" "db_up ?w3" by (simp_all add: demo_world_simps)
  note t = verify_reset_exactly_once [OF demo_bcrypt up, of demo_state "''a@x.com''" demo_world
      demo_reset_state "''550000''" "''secret2''" "''secret3''"]
  have h: "registered demo_state ''a@x.com'' \<and> db_up demo_world \<and> 0 \<le> random demo_world \<and>
      random demo_world < 1 \<and> now ?w2 < now demo_world + 300000"
    by (simp add: demo_registered demo_world_simps)
  from t [THEN conjunct1, THEN mp, OF h]
  have p: "pending demo_reset_state ''a@x.com'' ''550000'' 1200000"
    by (simp add: generateOtp_demo demo_reset_state_def)
  from p have p': "pending demo_reset_state ''a@x.com'' ''550000'' (now ?w2)" by simp
  note v = t [THEN conjunct2, THEN mp, OF p']
  have e: "demo_reset_state\<lparr>users1 := map (\<lambda>u. if user_email u = ''a@x.com''
                  then u\<lparr>user_password := bcrypt_hash demo_env ''secret2'' SALT_ROUNDS (salt ?w2),
                         reset_otp := None, reset_expires := None\<rparr>
                  else u) (users1 demo_reset_state)\<rparr> =
      \<lparr>users1 = [\<lparr>user_id = 1, user_email = ''a@x.com'', user_password = ''s1secret2'',
                   reset_otp = None, reset_expires = None\<rparr>],
        users1_id_seq = 1, outbox = [(''a@x.com'', ''550000'')]\<rparr>"
    unfolding demo_reset_state_eq by (simp add: demo_env_def demo_hash_def demo_world_simps)
  from v have v1: "verify_reset demo_env ?w2 ''a@x.com'' ''550000'' ''secret2'' demo_reset_state =
     (Response 200 (JMessage ''Password reset successful''),
      \<lparr>users1 = [\<lparr>user_id = 1, user_email = ''a@x.com'', user_password = ''s1secret2'',
                   reset_otp = None, reset_expires = None\<rparr>],
        users1_id_seq = 1, outbox = [(''a@x.com'', ''550000'')]\<rparr>)"
    unfolding e by (rule conjunct1)
  from v have v2: "verify_reset demo_env ?w3 ''a@x.com'' ''550000'' ''secret3''
                (snd (verify_reset demo_env ?w2 ''a@x.com'' ''550000'' ''secret2'' demo_reset_state)) =
              (Response 400 (JError ''Invalid or expired OTP''),
               snd (verify_reset demo_env ?w2 ''a@x.com'' ''550000'' ''secret2'' demo_reset_state))"
    by (rule conjunct2)
  show ?thesis
    using demo_reset_state_def p v1 v2 [unfolded v1 snd_conv] by (intro conjI)
qed

section \<open>Duplicate signups\<close>

text \<open>
  Claim C3.  With the store answering and a request that passes validation: a signup
  for an email that is already registered answers 400 \<^verbatim>\<open>User already exists\<close> and
  leaves the store as it was; so does the second of two signups for one email run one
  after the other, and exactly one account then has that email; however the statements
  of two concurrent signups for one email interleave, once both have answered exactly
  one account has that email, and both have answered as soon as each has had two turns.
  Uniqueness holds because the table itself refuses the duplicate: an \<^verbatim>\<open>INSERT\<close>
  for a registered email fails and adds no row, whether or not the handler's lookup has
  seen the account.
\<close>

theorem duplicate_signup_one_account:
  assumes "bcrypt_contract c" and "isEmail_contract c" and "store_inv st"
    and "isEmail c email" and "6 \<le> length password1" and "6 \<le> length password2"
    and "db_up w1" and "db_up w2"
  shows "(registered st email \<longrightarrow>
            signup c w2 email password2 st =
              (Response 400 (JError ''User already exists''), st)) \<and>
         signup c w2 email password2 (snd (signup c w1 email password1 st)) =
           (Response 400 (JError ''User already exists''),
            snd (signup c w1 email password1 st)) \<and>
         length (filter (\<lambda>u. user_email u = email)
           (users1 (snd (signup c w1 email password1 st)))) = 1 \<and>
         (signup_race c (w1, email, password1) (w2, email, password2) sched
              (At_select, At_select, st) = (Finished res1, Finished res2, st') \<longrightarrow>
            length (filter (\<lambda>u. user_email u = email) (users1 st')) = 1) \<and>
         (registered st email \<longrightarrow>
            (\<exists>err. fst (pool_query t (INSERT_user email hashed) st) = Inl err) \<and>
            users1 (snd (pool_query t (INSERT_user email hashed) st)) = users1 st) \<and>
         (2 \<le> length (filter (\<lambda>b. b) sched) \<and> 2 \<le> length (filter Not sched) \<longrightarrow>
            (\<exists>res1 res2 st'.
               signup_race c (w1, email, password1) (w2, email, password2) sched
                 (At_select, At_select, st) = (Finished res1, Finished res2, st') \<and>
               length (filter (\<lambda>u. user_email u = email) (users1 st')) = 1))"
proof (intro conjI impI)
  assume "registered st email"
  with assms(4,6) show "signup c w2 email password2 st =
      (Response 400 (JError ''User already exists''), st)"
    using assms(8) by (rule signup_registered)
next
  have "registered (snd (signup c w1 email password1 st)) email"
    using assms(1,2,3,4,5,7) by (rule signup_registers(1))
  with assms(4,6) show "signup c w2 email password2 (snd (signup c w1 email password1 st)) =
      (Response 400 (JError ''User already exists''), snd (signup c w1 email password1 st))"
    using assms(8) by (rule signup_registered)
next
  have "store_inv (snd (signup c w1 email password1 st))"
    using assms(1,2,3,4,5,7) by (rule signup_registers(2))
  moreover have "registered (snd (signup c w1 email password1 st)) email"
    using assms(1,2,3,4,5,7) by (rule signup_registers(1))
  ultimately show "length (filter (\<lambda>u. user_email u = email)
      (users1 (snd (signup c w1 email password1 st)))) = 1"
    by (rule one_row_per_email)
next
  assume "signup_race c (w1, email, password1) (w2, email, password2) sched
      (At_select, At_select, st) = (Finished res1, Finished res2, st')"
  with assms(1,2,4,5,6,7,8,3)
  show "length (filter (\<lambda>u. user_email u = email) (users1 st')) = 1"
    by (rule concurrent_signups_one_account)
next
  assume "registered st email"
  then show "\<exists>err. fst (pool_query t (INSERT_user email hashed) st) = Inl err"
    using insert_rejected by blast
next
  assume "registered st email"
  then show "users1 (snd (pool_query t (INSERT_user email hashed) st)) = users1 st"
    using insert_rejected by blast
next
  assume "2 \<le> length (filter (\<lambda>b. b) sched) \<and> 2 \<le> length (filter Not sched)"
  then have "\<exists>res1 res2 st'.
      signup_race c (w1, email, password1) (w2, email, password2) sched
        (At_select, At_select, st) = (Finished res1, Finished res2, st')"
    by (intro signup_race_finishes) simp_all
  then obtain res1 res2 st' where r:
    "signup_race c (w1, email, password1) (w2, email, password2) sched
        (At_select, At_select, st) = (Finished res1, Finished res2, st')"
    by blast
  with assms(1,2,4,5,6,7,8,3)
  have "length (filter (\<lambda>u. user_email u = email) (users1 st')) = 1"
    by (rule concurrent_signups_one_account)
  with r show "\<exists>res1 res2 st'.
      signup_race c (w1, email, password1) (w2, email, password2) sched
        (At_select, At_select, st) = (Finished res1, Finished res2, st') \<and>
      length (filter (\<lambda>u. user_email u = email) (users1 st')) = 1"
    by blast
qed

theorem duplicate_signup_one_account_witness:
  "signup demo_env later_world ''a@x.com'' ''secret9'' demo_state =
     (Response 400 (JError ''User already exists''), demo_state) \<and>
   demo_state = snd (signup demo_env demo_world ''a@x.com'' ''secret1'' empty_state) \<and>
   length (filter (\<lambda>u. user_email u = ''a@x.com'') (users1 demo_state)) = 1 \<and>
   signup_race demo_env (demo_world, ''a@x.com'', ''secret1'') (later_world, ''a@x.com'', ''secret9'')
     [True, False, True, False] (At_select, At_select, empty_state) =
     (Finished (Response 200 (JMessage ''Signup successful'')),
      Finished (Response 500 (JError ''Signup failed'')),
      \<lparr>users1 = [\<lparr>user_id = 1, user_email = ''a@x.com'', user_password = ''s1secret1'',
                   reset_otp = None, reset_expires = None\<rparr>],
        users1_id_seq = 2, outbox = []\<rparr>) \<and>
   length (filter (\<lambda>u. user_email u = ''a@x.com'')
     [\<lparr>user_id = 1, user_email = ''a@x.com'', user_password = ''s1secret1'',
       reset_otp = None, reset_expires = None\<rparr>]) = 1"
proof -
  let ?st' = "\<lparr>users1 = [\<lparr>user_id = 1, user_email = ''a@x.com'', user_password = ''s1secret1'',
                   reset_otp = None, reset_expires = None\<rparr>],
        users1_id_seq = 2, outbox = []\<rparr>"
  have v: "isEmail demo_env ''a@x.com''" "6 \<le> length ''secret1''" "6 \<le> length ''secret9''"
    by (simp_all add: demo_env_def)
  note t = duplicate_signup_one_account [OF demo_bcrypt demo_isEmail empty_store_inv v
      demo_world_simps(1) later_world_simps(1),
      where sched = "[True, False, True, False]" and st' = ?st']
  note a = t [THEN conjunct2, THEN conjunct1, folded demo_state_def]
  note b = t [THEN conjunct2, THEN conjunct2, THEN conjunct1, folded demo_state_def]
  note c = t [THEN conjunct2, THEN conjunct2, THEN conjunct2, THEN conjunct1, THEN mp,
      OF signup_race_lookups_first]
  from c have c': "length (filter (\<lambda>u. user_email u = ''a@x.com'')
     [\<lparr>user_id = 1, user_email = ''a@x.com'', user_password = ''s1secret1'',
       reset_otp = None, reset_expires = None\<rparr>]) = 1"
    by simp
  show ?thesis
    using a demo_state_def b signup_race_lookups_first c' by (intro conjI)
qed

section \<open>Reset requests for unknown emails\<close>

text \<open>
  Claim C4.  For every email that is not registered, with the store answering, a reset
  request answers 404 \<^verbatim>\<open>User not found\<close> and leaves the whole state as it was: no
  code and no expiry is stored, and the outbox gets no mail.  This is so in both
  production servers.
\<close>

theorem request_reset_unknown_email:
  assumes "\<not> registered st email" and "db_up w"
  shows "request_reset c w email st = (Response 404 (JError ''User not found''), st) \<and>
         request_reset_render c w email st = (Response 404 (JError ''User not found''), st)"
  using request_reset_unregistered [OF assms] by (intro conjI)

theorem request_reset_unknown_email_witness:
  "\<not> registered demo_state ''nobody@x.com'' \<and>
   request_reset demo_env demo_world ''nobody@x.com'' demo_state =
     (Response 404 (JError ''User not found''), demo_state) \<and>
   request_reset_render demo_env demo_world ''nobody@x.com'' demo_state =
     (Response 404 (JError ''User not found''), demo_state) \<and>
   outbox demo_state = []"
proof -
  have n: "\<not> registered demo_state ''nobody@x.com''"
    by (simp add: registered_def demo_state_eq)
  have o: "outbox demo_state = []" by (simp add: demo_state_eq)
  from request_reset_unknown_email [OF n demo_world_simps(1), of demo_env]
  show ?thesis using n o by (intro conjI) simp_all
qed

section \<open>Expired reset codes\<close>

text \<open>
  Claim C5.  With the store answering, verify-reset answers 400
  \<^verbatim>\<open>Invalid or expired OTP\<close> exactly when no account of that email has the submitted
  code stored with an expiry strictly after the time of the request.  So it fails
  whenever every expiry stored for the email is at or before that time, whatever the
  code; in particular the code a reset request issued fails from five minutes after the
  request on.
\<close>

theorem verify_reset_expired:
  assumes "db_up w"
  shows "((fst (verify_reset c w email otp newPassword st) =
            Response 400 (JError ''Invalid or expired OTP'')) =
          (\<not> pending st email otp (now w))) \<and>
         ((\<forall>u \<in> set (users1 st). user_email u = email \<longrightarrow>
             (\<forall>x. reset_expires u = Some x \<longrightarrow> x \<le> now w)) \<longrightarrow>
          verify_reset c w email otp newPassword st =
            (Response 400 (JError ''Invalid or expired OTP''), st)) \<and>
         (registered st0 email \<and> db_up w0 \<and> 0 \<le> random w0 \<and> random w0 < 1 \<and>
            now w0 + 5 * 60 * 1000 \<le> now w \<longrightarrow>
          verify_reset c w email (generateOtp w0) newPassword
              (snd (request_reset c w0 email st0)) =
            (Response 400 (JError ''Invalid or expired OTP''),
             snd (request_reset c w0 email st0)))"
proof (intro conjI impI)
  show "(fst (verify_reset c w email otp newPassword st) =
            Response 400 (JError ''Invalid or expired OTP'')) =
          (\<not> pending st email otp (now w))"
    using verify_reset_pending_response [OF assms, of st email otp c newPassword]
      verify_reset_fail [OF assms, of st email otp c newPassword]
    by auto
next
  assume "\<forall>u \<in> set (users1 st). user_email u = email \<longrightarrow>
             (\<forall>x. reset_expires u = Some x \<longrightarrow> x \<le> now w)"
  then have "\<not> pending st email otp (now w)"
    unfolding pending_def by fastforce
  with assms show "verify_reset c w email otp newPassword st =
            (Response 400 (JError ''Invalid or expired OTP''), st)"
    by (rule verify_reset_fail)
next
  assume a: "registered st0 email \<and> db_up w0 \<and> 0 \<le> random w0 \<and> random w0 < 1 \<and>
            now w0 + 5 * 60 * 1000 \<le> now w"
  then have r: "registered st0 email" "db_up w0" "0 \<le> random w0" "random w0 < 1"
    and t: "now w0 + 300000 \<le> now w" by simp_all
  let ?st1 = "st0\<lparr>users1 := map (\<lambda>u. if user_email u = email
          then u\<lparr>reset_otp := Some (generateOtp w0), reset_expires := Some (now w0 + 300000)\<rparr>
          else u) (users1 st0)\<rparr>"
  have "\<not> pending ?st1 email (generateOtp w0) (now w)"
    using t by (rule not_pending_expired)
  moreover have "users1 (snd (request_reset c w0 email st0)) = users1 ?st1"
    using users1_request_reset(1) [OF r] by simp
  ultimately have "\<not> pending (snd (request_reset c w0 email st0)) email (generateOtp w0) (now w)"
    by (simp add: pending_def)
  with assms show "verify_reset c w email (generateOtp w0) newPassword
              (snd (request_reset c w0 email st0)) =
            (Response 400 (JError ''Invalid or expired OTP''),
             snd (request_reset c w0 email st0))"
    by (rule verify_reset_fail)
qed

theorem verify_reset_expired_witness:
  "pending demo_reset_state ''a@x.com'' ''550000'' 1299999 \<and>
   \<not> pending demo_reset_state ''a@x.com'' ''550000'' 1300000 \<and>
   verify_reset demo_env (demo_world\<lparr>now := 1300000\<rparr>) ''a@x.com'' ''550000'' ''secret2''
     demo_reset_state =
     (Response 400 (JError ''Invalid or expired OTP''), demo_reset_state) \<and>
   verify_reset demo_env later_world ''a@x.com'' ''550000'' ''secret2'' demo_reset_state =
     (Response 400 (JError ''Invalid or expired OTP''), demo_reset_state)"
proof -
  let ?w = "demo_world\<lparr>now := 1300000\<rparr>"
  have up: "db_up ?w" by (simp add: demo_world_simps)
  have p: "pending demo_reset_state ''a@x.com'' ''550000'' 1299999"
    and n: "\<not> pending demo_reset_state ''a@x.com'' ''550000'' 1300000"
    by (simp_all add: pending_def demo_reset_state_eq)
  have x: "\<forall>u \<in> set (users1 demo_reset_state). user_email u = ''a@x.com'' \<longrightarrow>
             (\<forall>x. reset_expires u = Some x \<longrightarrow> x \<le> now ?w)"
    by (simp add: demo_reset_state_eq)
  note a = verify_reset_expired [OF up, where c = demo_env and email = "''a@x.com''"
      and otp = "''550000''" and newPassword = "''secret2''" and st = demo_reset_state,
      THEN conjunct2, THEN conjunct1, THEN mp, OF x]
  have h: "registered demo_state ''a@x.com'' \<and> db_up demo_world \<and> 0 \<le> random demo_world \<and>
      random demo_world < 1 \<and> now demo_world + 5 * 60 * 1000 \<le> now later_world"
    by (simp add: demo_registered demo_world_simps later_world_simps)
  note b = verify_reset_expired [OF later_world_simps(1), where c = demo_env
      and newPassword = "''secret2''" and ?st0.0 = demo_state and email = "''a@x.com''"
      and ?w0.0 = demo_world, THEN conjunct2, THEN conjunct2, THEN mp, OF h]
  show ?thesis
    using p n a b by (simp add: generateOtp_demo demo_reset_state_def)
qed

section \<open>Failed logins\<close>




section \<open>Reset requests whose mail is not delivered\<close>

text \<open>
  Claim C7.  For a registered email, when the store answers and delivery fails, the
  reset request answers 500 with the delivery error (in both production servers), the
  new code and its expiry five minutes ahead are stored on the account, and a second
  request overwrites them with its own code and expiry.
\<close>

theorem request_reset_delivery_failed:
  assumes "registered st email"
    and "db_up w" and "0 \<le> random w" and "random w < 1" and "\<not> mail_up w"
    and "db_up w'" and "0 \<le> random w'" and "random w' < 1"
  shows "request_reset c w email st =
           (Response 500 (JError ''Failed to send OTP email''),
            st\<lparr>users1 := map (\<lambda>u. if user_email u = email
               then u\<lparr>reset_otp := Some (generateOtp w), reset_expires := Some (now w + 300000)\<rparr>
               else u) (users1 st)\<rparr>) \<and>
         request_reset_render c w email st =
           (Response 500 (JError ''Email send failed''),
            st\<lparr>users1 := map (\<lambda>u. if user_email u = email
               then u\<lparr>reset_otp := Some (generateOtp w), reset_expires := Some (now w + 300000)\<rparr>
               else u) (users1 st)\<rparr>) \<and>
         users1 (snd (request_reset c w' email (snd (request_reset c w email st)))) =
           map (\<lambda>u. if user_email u = email
               then u\<lparr>reset_otp := Some (generateOtp w'), reset_expires := Some (now w' + 300000)\<rparr>
               else u) (users1 st) \<and>
         users1 (snd (request_reset_render c w' email (snd (request_reset_render c w email st)))) =
           map (\<lambda>u. if user_email u = email
               then u\<lparr>reset_otp := Some (generateOtp w'), reset_expires := Some (now w' + 300000)\<rparr>
               else u) (users1 st)"
proof -
  let ?f = "\<lambda>w u. if user_email u = email
               then u\<lparr>reset_otp := Some (generateOtp w), reset_expires := Some (now w + 300000)\<rparr>
               else u"
  let ?st1 = "st\<lparr>users1 := map (?f w) (users1 st)\<rparr>"
  have a: "request_reset c w email st = (Response 500 (JError ''Failed to send OTP email''), ?st1)"
    using assms(5) by (simp add: request_reset_registered [OF assms(1-4)])
  have b: "request_reset_render c w email st = (Response 500 (JError ''Email send failed''), ?st1)"
    using assms(5) by (simp add: request_reset_render_registered [OF assms(1-4)])
  have r: "registered ?st1 email"
    using assms(1) by (subst registered_map) simp_all
  have m: "map (?f w') (map (?f w) (users1 st)) = map (?f w') (users1 st)"
    by simp
  have c: "users1 (snd (request_reset c w' email ?st1)) = map (?f w') (users1 st)"
    using users1_request_reset(1) [OF r assms(6-8)] m by simp
  have d: "users1 (snd (request_reset_render c w' email ?st1)) = map (?f w') (users1 st)"
    using users1_request_reset(2) [OF r assms(6-8)] m by simp
  show ?thesis using a b c d by simp
qed

theorem request_reset_delivery_failed_witness:
  "request_reset demo_env mail_down_world ''a@x.com'' demo_state =
     (Response 500 (JError ''Failed to send OTP email''),
      \<lparr>users1 = [\<lparr>user_id = 1, user_email = ''a@x.com'', user_password = ''s1secret1'',
                   reset_otp = Some ''550000'', reset_expires = Some 1300000\<rparr>],
        users1_id_seq = 1, outbox = []\<rparr>) \<and>
   request_reset_render demo_env mail_down_world ''a@x.com'' demo_state =
     (Response 500 (JError ''Email send failed''),
      \<lparr>users1 = [\<lparr>user_id = 1, user_email = ''a@x.com'', user_password = ''s1secret1'',
                   reset_otp = Some ''550000'', reset_expires = Some 1300000\<rparr>],
        users1_id_seq = 1, outbox = []\<rparr>) \<and>
   users1 (snd (request_reset demo_env later_world ''a@x.com''
      (snd (request_reset demo_env mail_down_world ''a@x.com'' demo_state)))) =
     [\<lparr>user_id = 1, user_email = ''a@x.com'', user_password = ''s1secret1'',
       reset_otp = Some ''325000'', reset_expires = Some 2300000\<rparr>]"
proof -
  have w: "db_up mail_down_world" "0 \<le> random mail_down_world"
    "random mail_down_world < 1" "\<not> mail_up mail_down_world"
    by (simp_all add: mail_down_world_def demo_world_def)
  have o: "generateOtp mail_down_world = ''550000''" "now mail_down_world = 1000000"
    using generateOtp_demo by (simp_all add: generateOtp_def mail_down_world_def demo_world_def)
  show ?thesis
    using request_reset_delivery_failed [OF demo_registered w later_world_simps(1-3), of demo_env]
    apply (simp (no_asm_use) add: o generateOtp_later demo_state_eq demo_world_simps later_world_simps)
    apply blast
    done
qed

section \<open>The joint invariant of the reset fields\<close>

text \<open>
  Claim C8.  No account has an expiry without a code: this holds in the empty store, the
  row a successful signup inserts has both fields \<^verbatim>\<open>NULL\<close>, and each of the six
  operations (signup, login, request-reset, verify-reset, change-password, profile)
  preserves it, so it holds after every run of requests.  The same is true of the
  stronger property that the two fields are null together or set together, since every
  \<^verbatim>\<open>UPDATE\<close> that touches one of them writes both.
\<close>

theorem reset_fields_invariant:
  "reset_inv empty_state \<and>
   (fst (signup c w email password st) = Response 200 (JMessage ''Signup successful'') \<longrightarrow>
      (\<exists>u. users1 (snd (signup c w email password st)) = users1 st @ [u] \<and>
           user_email u = email \<and> reset_otp u = None \<and> reset_expires u = None)) \<and>
   (reset_inv st \<longrightarrow> reset_inv (snd (handle c w r st))) \<and>
   (reset_paired st \<longrightarrow> reset_paired (snd (handle c w r st))) \<and>
   reset_inv (run c rs empty_state) \<and>
   reset_paired (run c rs empty_state)"
proof (intro conjI impI)
  show "reset_inv empty_state" by (simp add: reset_inv_def empty_state_def)
next
  assume "fst (signup c w email password st) = Response 200 (JMessage ''Signup successful'')"
  then show "\<exists>u. users1 (snd (signup c w email password st)) = users1 st @ [u] \<and>
           user_email u = email \<and> reset_otp u = None \<and> reset_expires u = None"
    by (rule signup_created_row)
next
  assume "reset_inv st"
  with reset_inv_pool_query reset_inv_outbox show "reset_inv (snd (handle c w r st))"
    by (rule handle_preserves)
next
  assume "reset_paired st"
  with reset_paired_pool_query reset_paired_outbox show "reset_paired (snd (handle c w r st))"
    by (rule handle_preserves)
next
  have "reset_inv empty_state" by (simp add: reset_inv_def empty_state_def)
  with reset_inv_pool_query reset_inv_outbox show "reset_inv (run c rs empty_state)"
    by (rule run_preserves)
next
  have "reset_paired empty_state" by (simp add: reset_paired_def empty_state_def)
  with reset_paired_pool_query reset_paired_outbox show "reset_paired (run c rs empty_state)"
    by (rule run_preserves)
qed

theorem reset_fields_invariant_witness:
  "reset_inv demo_state \<and>
   handle demo_env demo_world (RequestReset ''a@x.com'') demo_state =
     (Response 200 (JMessage ''OTP sent to email''), demo_reset_state) \<and>
   reset_inv demo_reset_state \<and>
   reset_paired (run demo_env
     [(demo_world, Signup ''a@x.com'' ''secret1''), (demo_world, RequestReset ''a@x.com''),
      (later_world, VerifyReset ''a@x.com'' ''550000'' ''secret2'')] empty_state)"
proof -
  have i: "reset_inv demo_state" by (simp add: reset_inv_def demo_state_eq)
  have h: "handle demo_env demo_world (RequestReset ''a@x.com'') demo_state =
     (Response 200 (JMessage ''OTP sent to email''), demo_reset_state)"
    unfolding demo_reset_state_def
    by (simp add: request_reset_registered [OF demo_registered demo_world_simps(1-3)]
        demo_world_simps)
  note t = reset_fields_invariant [where st = demo_state and c = demo_env and w = demo_world
      and r = "RequestReset ''a@x.com''"]
  from t [THEN conjunct2, THEN conjunct2, THEN conjunct1, THEN mp, OF i]
  have "reset_inv demo_reset_state" unfolding h by simp
  with i h t [THEN conjunct2, THEN conjunct2, THEN conjunct2, THEN conjunct2, THEN conjunct2]
  show ?thesis by blast
qed

section \<open>Changing the password\<close>

text \<open>
  Claim C9, as stated, promises that after a successful change the old password no
  longer logs in, for every old and new password.  The handler never compares the two:
  when the new password is the old one, the change succeeds and the old password still
  logs in.
\<close>

theorem change_password_same_password_counterexample:
  "change_password demo_env later_world (Some ''Bearer k.i.a@x.com'') ''secret1'' ''secret1''
     demo_state =
     (Response 200 (JMessage ''Password changed''),
      \<lparr>users1 = [\<lparr>user_id = 1, user_email = ''a@x.com'', user_password = ''s2secret1'',
                   reset_otp = None, reset_expires = None\<rparr>],
        users1_id_seq = 1, outbox = []\<rparr>) \<and>
   login demo_env demo_world ''a@x.com'' (Some ''secret1'')
     \<lparr>users1 = [\<lparr>user_id = 1, user_email = ''a@x.com'', user_password = ''s2secret1'',
                   reset_otp = None, reset_expires = None\<rparr>],
        users1_id_seq = 1, outbox = []\<rparr> =
     (Response 200 (JTokenUser ''k.i.a@x.com'' 1 ''a@x.com''),
      \<lparr>users1 = [\<lparr>user_id = 1, user_email = ''a@x.com'', user_password = ''s2secret1'',
                   reset_otp = None, reset_expires = None\<rparr>],
        users1_id_seq = 1, outbox = []\<rparr>) \<and>
   fst (login demo_env demo_world ''a@x.com'' (Some ''secret1'')
     \<lparr>users1 = [\<lparr>user_id = 1, user_email = ''a@x.com'', user_password = ''s2secret1'',
                   reset_otp = None, reset_expires = None\<rparr>],
        users1_id_seq = 1, outbox = []\<rparr>) \<noteq> Response 401 (JError ''Invalid credentials'')"
proof -
  have a: "change_password demo_env later_world (Some ''Bearer k.i.a@x.com'') ''secret1''
     ''secret1'' demo_state =
     (Response 200 (JMessage ''Password changed''),
      \<lparr>users1 = [\<lparr>user_id = 1, user_email = ''a@x.com'', user_password = ''s2secret1'',
                   reset_otp = None, reset_expires = None\<rparr>],
        users1_id_seq = 1, outbox = []\<rparr>)"
    by (simp add: change_password_def demo_token dbQuery_def later_world_simps demo_state_eq)
       (simp add: demo_env_def demo_compare_def demo_hash_def)
  have b: "login demo_env demo_world ''a@x.com'' (Some ''secret1'')
     \<lparr>users1 = [\<lparr>user_id = 1, user_email = ''a@x.com'', user_password = ''s2secret1'',
                   reset_otp = None, reset_expires = None\<rparr>],
        users1_id_seq = 1, outbox = []\<rparr> =
     (Response 200 (JTokenUser ''k.i.a@x.com'' 1 ''a@x.com''),
      \<lparr>users1 = [\<lparr>user_id = 1, user_email = ''a@x.com'', user_password = ''s2secret1'',
                   reset_otp = None, reset_expires = None\<rparr>],
        users1_id_seq = 1, outbox = []\<rparr>)"
    by (simp add: login_def dbQuery_def demo_world_simps demo_env_def demo_compare_def
        demo_sign_def)
  show ?thesis using a b by simp
qed

text \<open>
  Claim C9, amended.  For every account and passwords old and new, change-password with
  a valid token for the account and an old password that verifies against the stored
  digest answers 200 and replaces the digest of that account only; a login with the new
  password then answers 200 with a token for the account, and a login with the old
  password answers 401 \<^verbatim>\<open>Invalid credentials\<close> provided the old password does not
  verify against the new digest (for bcrypt: the two passwords differ within their first
  72 bytes).  When the old password does not verify against the stored digest,
  change-password answers 400 \<^verbatim>\<open>Old password incorrect\<close> and leaves the store as it
  was.
\<close>

theorem change_password_then_login:
  assumes "bcrypt_contract c" and "store_inv st"
    and "db_up w1" and "db_up w2" and "db_up w3"
    and "u \<in> set (users1 st)"
    and "verifyToken c w1 header = Inr req_user" and "payload_id req_user = user_id u"
  shows "(bcrypt_compare c oldPassword (user_password u) \<longrightarrow>
           (let st' = st\<lparr>users1 := map (\<lambda>v. if user_id v = user_id u
                  then v\<lparr>user_password := bcrypt_hash c newPassword SALT_ROUNDS (salt w1)\<rparr>
                  else v) (users1 st)\<rparr>
            in change_password c w1 header oldPassword newPassword st =
                 (Response 200 (JMessage ''Password changed''), st') \<and>
               login c w2 (user_email u) (Some newPassword) st' =
                 (Response 200 (JTokenUser
                    (jwt_sign c \<lparr>payload_id = user_id u, payload_email = user_email u\<rparr>
                       (JWT_SECRET c) 3600 (now w2))
                    (user_id u) (user_email u)), st') \<and>
               (\<not> bcrypt_compare c oldPassword
                    (bcrypt_hash c newPassword SALT_ROUNDS (salt w1)) \<longrightarrow>
                  login c w3 (user_email u) (Some oldPassword) st' =
                    (Response 401 (JError ''Invalid credentials''), st')))) \<and>
         (\<not> bcrypt_compare c oldPassword (user_password u) \<longrightarrow>
            change_password c w1 header oldPassword newPassword st =
              (Response 400 (JError ''Old password incorrect''), st))"
proof (intro conjI impI)
  assume ok: "bcrypt_compare c oldPassword (user_password u)"
  let ?h = "bcrypt_hash c newPassword SALT_ROUNDS (salt w1)"
  let ?st' = "st\<lparr>users1 := map (\<lambda>v. if user_id v = user_id u
                  then v\<lparr>user_password := ?h\<rparr> else v) (users1 st)\<rparr>"
  have ch: "change_password c w1 header oldPassword newPassword st =
                 (Response 200 (JMessage ''Password changed''), ?st')"
    using assms(1,2,3,6,7,8) ok by (rule change_password_ok)
  have f: "filter (\<lambda>v. user_email v = user_email u) (users1 ?st') = [u\<lparr>user_password := ?h\<rparr>]"
    using filter_email_after_change [OF assms(2,6)] by simp
  have cmp: "bcrypt_compare c newPassword (user_password (u\<lparr>user_password := ?h\<rparr>))"
    using assms(1) by (simp add: bcrypt_contract_def)
  have l1: "login c w2 (user_email u) (Some newPassword) ?st' =
                 (Response 200 (JTokenUser
                    (jwt_sign c \<lparr>payload_id = user_id u, payload_email = user_email u\<rparr>
                       (JWT_SECRET c) 3600 (now w2))
                    (user_id u) (user_email u)), ?st')"
    using login_ok [OF f cmp assms(4)] by simp
  have l2: "\<not> bcrypt_compare c oldPassword ?h \<longrightarrow>
         login c w3 (user_email u) (Some oldPassword) ?st' =
           (Response 401 (JError ''Invalid credentials''), ?st')"
  proof
    assume n: "\<not> bcrypt_compare c oldPassword ?h"
    have "\<forall>v \<in> set (users1 ?st'). user_email v = user_email u \<longrightarrow>
           \<not> bcrypt_compare c oldPassword (user_password v)"
    proof (intro ballI impI)
      fix v assume "v \<in> set (users1 ?st')" "user_email v = user_email u"
      then have "v \<in> set (filter (\<lambda>v. user_email v = user_email u) (users1 ?st'))" by simp
      then have "v = u\<lparr>user_password := ?h\<rparr>" unfolding f by simp
      then show "\<not> bcrypt_compare c oldPassword (user_password v)" using n by simp
    qed
    with assms(5) show "login c w3 (user_email u) (Some oldPassword) ?st' =
           (Response 401 (JError ''Invalid credentials''), ?st')"
      by (rule login_mismatch)
  qed
  show "let st' = ?st' in
          change_password c w1 header oldPassword newPassword st =
                 (Response 200 (JMessage ''Password changed''), st') \<and>
               login c w2 (user_email u) (Some newPassword) st' =
                 (Response 200 (JTokenUser
                    (jwt_sign c \<lparr>payload_id = user_id u, payload_email = user_email u\<rparr>
                       (JWT_SECRET c) 3600 (now w2))
                    (user_id u) (user_email u)), st') \<and>
               (\<not> bcrypt_compare c oldPassword
                    (bcrypt_hash c newPassword SALT_ROUNDS (salt w1)) \<longrightarrow>
                  login c w3 (user_email u) (Some oldPassword) st' =
                    (Response 401 (JError ''Invalid credentials''), st'))"
    unfolding Let_def using ch l1 l2 by (intro conjI)
next
  assume "\<not> bcrypt_compare c oldPassword (user_password u)"
  with assms(2,3,6,7,8) show "change_password c w1 header oldPassword newPassword st =
              (Response 400 (JError ''Old password incorrect''), st)"
    by (rule change_password_mismatch)
qed

theorem change_password_then_login_witness:
  "change_password demo_env later_world (Some ''Bearer k.i.a@x.com'') ''secret1'' ''secret2''
     demo_state =
     (Response 200 (JMessage ''Password changed''),
      \<lparr>users1 = [\<lparr>user_id = 1, user_email = ''a@x.com'', user_password = ''s2secret2'',
                   reset_otp = None, reset_expires = None\<rparr>],
        users1_id_seq = 1, outbox = []\<rparr>) \<and>
   login demo_env demo_world ''a@x.com'' (Some ''secret2'')
     \<lparr>users1 = [\<lparr>user_id = 1, user_email = ''a@x.com'', user_password = ''s2secret2'',
                   reset_otp = None, reset_expires = None\<rparr>],
        users1_id_seq = 1, outbox = []\<rparr> =
     (Response 200 (JTokenUser ''k.i.a@x.com'' 1 ''a@x.com''),
      \<lparr>users1 = [\<lparr>user_id = 1, user_email = ''a@x.com'', user_password = ''s2secret2'',
                   reset_otp = None, reset_expires = None\<rparr>],
        users1_id_seq = 1, outbox = []\<rparr>) \<and>
   login demo_env demo_world ''a@x.com'' (Some ''secret1'')
     \<lparr>users1 = [\<lparr>user_id = 1, user_email = ''a@x.com'', user_password = ''s2secret2'',
                   reset_otp = None, reset_expires = None\<rparr>],
        users1_id_seq = 1, outbox = []\<rparr> =
     (Response 401 (JError ''Invalid credentials''),
      \<lparr>users1 = [\<lparr>user_id = 1, user_email = ''a@x.com'', user_password = ''s2secret2'',
                   reset_otp = None, reset_expires = None\<rparr>],
        users1_id_seq = 1, outbox = []\<rparr>) \<and>
   change_password demo_env later_world (Some ''Bearer k.i.a@x.com'') ''wrong-password''
     ''secret2'' demo_state =
     (Response 400 (JError ''Old password incorrect''), demo_state)"
proof -
  let ?u = "\<lparr>user_id = 1, user_email = ''a@x.com'', user_password = ''s1secret1'',
             reset_otp = None, reset_expires = None\<rparr>"
  let ?st' = "\<lparr>users1 = [\<lparr>user_id = 1, user_email = ''a@x.com'', user_password = ''s2secret2'',
                   reset_otp = None, reset_expires = None\<rparr>],
        users1_id_seq = 1, outbox = []\<rparr>"
  have u: "?u \<in> set (users1 demo_state)" by (simp add: demo_state_eq)
  have p: "payload_id \<lparr>payload_id = 1, payload_email = ''a@x.com''\<rparr> = user_id ?u" by simp
  note t = change_password_then_login [OF demo_bcrypt demo_store_inv later_world_simps(1)
      demo_world_simps(1) demo_world_simps(1) u demo_token p, where newPassword = "''secret2''"]
  have ok: "bcrypt_compare demo_env ''secret1'' (user_password ?u)"
    and no: "\<not> bcrypt_compare demo_env ''wrong-password'' (user_password ?u)"
    and dist: "\<not> bcrypt_compare demo_env ''secret1''
       (bcrypt_hash demo_env ''secret2'' SALT_ROUNDS (salt later_world))"
    by (simp_all add: demo_env_def demo_compare_def demo_hash_def later_world_simps)
  have e: "demo_state\<lparr>users1 := map (\<lambda>v. if user_id v = user_id ?u
       then v\<lparr>user_password := bcrypt_hash demo_env ''secret2'' SALT_ROUNDS (salt later_world)\<rparr>
       else v) (users1 demo_state)\<rparr> = ?st'"
    unfolding demo_state_eq by (simp add: demo_env_def demo_hash_def later_world_simps)
  have tok: "jwt_sign demo_env \<lparr>payload_id = user_id ?u, payload_email = user_email ?u\<rparr>
      (JWT_SECRET demo_env) 3600 (now demo_world) = ''k.i.a@x.com''"
    by (simp add: demo_env_def demo_sign_def)
  note a = t [where oldPassword = "''secret1''", THEN conjunct1, THEN mp, OF ok,
      unfolded Let_def e tok]
  note b = t [where oldPassword = "''wrong-password''", THEN conjunct2, THEN mp, OF no]
  from a have a1: "change_password demo_env later_world (Some ''Bearer k.i.a@x.com'')
      ''secret1'' ''secret2'' demo_state = (Response 200 (JMessage ''Password changed''), ?st')"
    and a2: "login demo_env demo_world ''a@x.com'' (Some ''secret2'') ?st' =
      (Response 200 (JTokenUser ''k.i.a@x.com'' 1 ''a@x.com''), ?st')"
    and a3: "\<not> bcrypt_compare demo_env ''secret1''
       (bcrypt_hash demo_env ''secret2'' SALT_ROUNDS (salt later_world)) \<longrightarrow>
      login demo_env demo_world ''a@x.com'' (Some ''secret1'') ?st' =
      (Response 401 (JError ''Invalid credentials''), ?st')"
    by simp_all
  show ?thesis
    using a1 a2 a3 [THEN mp, OF dist] b by (intro conjI)
qed

section \<open>No minimum length on a new password\<close>

text \<open>
  Claim C10.  For every new password shorter than six characters, the empty one
  included: verify-reset with a pending code answers 200 and stores its digest, and
  change-password with a valid token and the right old password answers 200 and stores
  its digest, while signup refuses the same password with a validation error naming
  \<^verbatim>\<open>password\<close>.
\<close>

theorem reset_and_change_accept_short_passwords:
  assumes "bcrypt_contract c" and "db_up w" and "length newPassword < 6"
  shows "(pending st email otp (now w) \<longrightarrow>
            verify_reset c w email otp newPassword st =
              (Response 200 (JMessage ''Password reset successful''),
               st\<lparr>users1 := map (\<lambda>u. if user_email u = email
                  then u\<lparr>user_password := bcrypt_hash c newPassword SALT_ROUNDS (salt w),
                         reset_otp := None, reset_expires := None\<rparr>
                  else u) (users1 st)\<rparr>)) \<and>
         (verifyToken c w header = Inr req_user \<and>
          filter (\<lambda>u. user_id u = payload_id req_user) (users1 st) = user # rest \<and>
          bcrypt_compare c oldPassword (user_password user) \<longrightarrow>
            change_password c w header oldPassword newPassword st =
              (Response 200 (JMessage ''Password changed''),
               st\<lparr>users1 := map (\<lambda>u. if user_id u = payload_id req_user
                  then u\<lparr>user_password := bcrypt_hash c newPassword SALT_ROUNDS (salt w)\<rparr>
                  else u) (users1 st)\<rparr>)) \<and>
         signup c w email newPassword st =
           (Response 400 (JErrors (validationResult c email newPassword)), st) \<and>
         ''password'' \<in> set (validationResult c email newPassword)"
proof -
  have len: "length (bcrypt_hash c newPassword SALT_ROUNDS (salt w)) \<le> 255"
    using assms(1) by (simp add: bcrypt_contract_def)
  have v: "validationResult c email newPassword \<noteq> []"
    "''password'' \<in> set (validationResult c email newPassword)"
    using assms(3) by (simp_all add: validationResult_def)
  have s: "signup c w email newPassword st =
           (Response 400 (JErrors (validationResult c email newPassword)), st)"
    using v(1) by (simp add: signup_def Let_def)
  have r: "pending st email otp (now w) \<longrightarrow>
            verify_reset c w email otp newPassword st =
              (Response 200 (JMessage ''Password reset successful''),
               st\<lparr>users1 := map (\<lambda>u. if user_email u = email
                  then u\<lparr>user_password := bcrypt_hash c newPassword SALT_ROUNDS (salt w),
                         reset_otp := None, reset_expires := None\<rparr>
                  else u) (users1 st)\<rparr>)"
    using verify_reset_ok [OF assms(1,2)] by blast
  have ch: "verifyToken c w header = Inr req_user \<and>
          filter (\<lambda>u. user_id u = payload_id req_user) (users1 st) = user # rest \<and>
          bcrypt_compare c oldPassword (user_password user) \<longrightarrow>
            change_password c w header oldPassword newPassword st =
              (Response 200 (JMessage ''Password changed''),
               st\<lparr>users1 := map (\<lambda>u. if user_id u = payload_id req_user
                  then u\<lparr>user_password := bcrypt_hash c newPassword SALT_ROUNDS (salt w)\<rparr>
                  else u) (users1 st)\<rparr>)"
    using assms(2) len by (simp add: change_password_def dbQuery_def Let_def not_less)
  show ?thesis using r ch s v(2) by blast
qed

theorem reset_and_change_accept_short_passwords_witness:
  "verify_reset demo_env demo_world ''a@x.com'' ''550000'' [] demo_reset_state =
     (Response 200 (JMessage ''Password reset successful''),
      \<lparr>users1 = [\<lparr>user_id = 1, user_email = ''a@x.com'', user_password = ''s1'',
                   reset_otp = None, reset_expires = None\<rparr>],
        users1_id_seq = 1, outbox = [(''a@x.com'', ''550000'')]\<rparr>) \<and>
   change_password demo_env demo_world (Some ''Bearer k.i.a@x.com'') ''secret1'' [] demo_state =
     (Response 200 (JMessage ''Password changed''),
      \<lparr>users1 = [\<lparr>user_id = 1, user_email = ''a@x.com'', user_password = ''s1'',
                   reset_otp = None, reset_expires = None\<rparr>],
        users1_id_seq = 1, outbox = []\<rparr>) \<and>
   signup demo_env demo_world ''b@x.com'' [] demo_state =
     (Response 400 (JErrors [''password'']), demo_state)"
proof -
  have len: "length ([] :: string) < 6" by simp
  note t = reset_and_change_accept_short_passwords [OF demo_bcrypt demo_world_simps(1) len]
  have p: "pending demo_reset_state ''a@x.com'' ''550000'' (now demo_world)"
    by (simp add: pending_def demo_reset_state_eq demo_world_simps)
  have h: "verifyToken demo_env demo_world (Some ''Bearer k.i.a@x.com'') =
        Inr \<lparr>payload_id = 1, payload_email = ''a@x.com''\<rparr> \<and>
      filter (\<lambda>u. user_id u = payload_id \<lparr>payload_id = 1, payload_email = ''a@x.com''\<rparr>)
        (users1 demo_state) =
        \<lparr>user_id = 1, user_email = ''a@x.com'', user_password = ''s1secret1'',
          reset_otp = None, reset_expires = None\<rparr> # [] \<and>
      bcrypt_compare demo_env ''secret1'' (user_password
        \<lparr>user_id = 1, user_email = ''a@x.com'', user_password = ''s1secret1'',
          reset_otp = None, reset_expires = None\<rparr>)"
    by (intro conjI demo_token) (simp_all add: demo_state_eq demo_env_def demo_compare_def)
  note a = t [where email = "''a@x.com''" and st = demo_reset_state and otp = "''550000''",
      THEN conjunct1, THEN mp, OF p]
  note b = t [where st = demo_state, THEN conjunct2, THEN conjunct1, THEN mp, OF h]
  note c = t [where email = "''b@x.com''" and st = demo_state,
      THEN conjunct2, THEN conjunct2, THEN conjunct1]
  have v: "validationResult demo_env ''b@x.com'' [] = [''password'']"
    by (simp add: validationResult_def demo_env_def)
  have ea: "demo_reset_state\<lparr>users1 := map (\<lambda>u. if user_email u = ''a@x.com''
        then u\<lparr>user_password := bcrypt_hash demo_env [] SALT_ROUNDS (salt demo_world),
               reset_otp := None, reset_expires := None\<rparr>
        else u) (users1 demo_reset_state)\<rparr> =
      \<lparr>users1 = [\<lparr>user_id = 1, user_email = ''a@x.com'', user_password = ''s1'',
                   reset_otp = None, reset_expires = None\<rparr>],
        users1_id_seq = 1, outbox = [(''a@x.com'', ''550000'')]\<rparr>"
    unfolding demo_reset_state_eq by (simp add: demo_env_def demo_hash_def demo_world_simps)
  have eb: "demo_state\<lparr>users1 := map (\<lambda>u. if user_id u =
          payload_id \<lparr>payload_id = 1, payload_email = ''a@x.com''\<rparr>
        then u\<lparr>user_password := bcrypt_hash demo_env [] SALT_ROUNDS (salt demo_world)\<rparr>
        else u) (users1 demo_state)\<rparr> =
      \<lparr>users1 = [\<lparr>user_id = 1, user_email = ''a@x.com'', user_password = ''s1'',
                   reset_otp = None, reset_expires = None\<rparr>],
        users1_id_seq = 1, outbox = []\<rparr>"
    unfolding demo_state_eq by (simp add: demo_env_def demo_hash_def demo_world_simps)
  show ?thesis
    using a [unfolded ea] b [unfolded eb] c [unfolded v] by (intro conjI)
qed

end
